theory Spec2Isabelle
  imports Complex_Main "HOL-Library.Sublist"
begin

section \<open>Python values, exceptions and the library operations the handlers use\<close>

text \<open>
  The backend (\<^verbatim>\<open>app.py\<close>) receives JSON and works on the Python values the JSON
  decoder produces. A finite Python float is a rational number, and the model keeps its
  exact value; the two infinities and NaN, which the decoder accepts, are values of their
  own. A Python \<^verbatim>\<open>str\<close> is a \<open>string\<close>, one \<open>char\<close> per code point. A
  \<^verbatim>\<open>dict\<close> is an association list read with \<open>map_of\<close>.
\<close>

datatype pyfloat = Finite rat | PosInf | NegInf | NaN

datatype pyval =
    PNone
  | PBool bool
  | PInt int
  | PFloat pyfloat
  | PStr string
  | PList "pyval list"
  | PDict "(string \<times> pyval) list"

text \<open>
  Exceptions are values. \<open>OtherError\<close> stands for whatever \<^verbatim>\<open>requests.get\<close> or
  \<^verbatim>\<open>BeautifulSoup\<close> raise (connection errors, timeouts, parser errors), with its text.
\<close>

datatype exc =
    KeyError string
  | TypeError string
  | AttributeError string
  | ValueError string
  | OverflowError string
  | OtherError string

definition quote :: "string \<Rightarrow> string" where
  "quote s = [CHR 0x27] @ s @ [CHR 0x27]"

fun str_exc :: "exc \<Rightarrow> string" where
  "str_exc (KeyError k) = quote k"
| "str_exc (TypeError m) = m"
| "str_exc (AttributeError m) = m"
| "str_exc (ValueError m) = m"
| "str_exc (OverflowError m) = m"
| "str_exc (OtherError m) = m"

fun type_name :: "pyval \<Rightarrow> string" where
  "type_name PNone = ''NoneType''"
| "type_name (PBool _) = ''bool''"
| "type_name (PInt _) = ''int''"
| "type_name (PFloat _) = ''float''"
| "type_name (PStr _) = ''str''"
| "type_name (PList _) = ''list''"
| "type_name (PDict _) = ''dict''"

subsection \<open>Truth value, \<^verbatim>\<open>dict.get\<close>, subscription, iteration\<close>

fun truthy :: "pyval \<Rightarrow> bool" where
  "truthy PNone = False"
| "truthy (PBool b) = b"
| "truthy (PInt n) = (n \<noteq> 0)"
| "truthy (PFloat f) = (f \<noteq> Finite 0)"
| "truthy (PStr s) = (s \<noteq> [])"
| "truthy (PList xs) = (xs \<noteq> [])"
| "truthy (PDict kv) = (kv \<noteq> [])"

fun py_get :: "pyval \<Rightarrow> string \<Rightarrow> pyval \<Rightarrow> exc + pyval" where
  "py_get (PDict kv) k d = Inr (case map_of kv k of None \<Rightarrow> d | Some v \<Rightarrow> v)"
| "py_get v k d = Inl (AttributeError (quote (type_name v) @ '' object has no attribute '' @ quote ''get''))"

fun py_subscript :: "pyval \<Rightarrow> string \<Rightarrow> exc + pyval" where
  "py_subscript (PDict kv) k = (case map_of kv k of None \<Rightarrow> Inl (KeyError k) | Some v \<Rightarrow> Inr v)"
| "py_subscript (PList xs) k = Inl (TypeError ''list indices must be integers or slices, not str'')"
| "py_subscript (PStr s) k = Inl (TypeError (''string indices must be integers, not '' @ quote ''str''))"
| "py_subscript v k = Inl (TypeError (quote (type_name v) @ '' object is not subscriptable''))"

fun py_iter :: "pyval \<Rightarrow> exc + pyval list" where
  "py_iter (PList xs) = Inr xs"
| "py_iter (PStr s) = Inr (map (\<lambda>c. PStr [c]) s)"
| "py_iter (PDict kv) = Inr (map (\<lambda>p. PStr (fst p)) kv)"
| "py_iter v = Inl (TypeError (quote (type_name v) @ '' object is not iterable''))"

subsection \<open>Strings\<close>

definition is_space :: "char \<Rightarrow> bool" where
  "is_space c = (c \<in> set [CHR 0x09, CHR 0x0A, CHR 0x0B, CHR 0x0C, CHR 0x0D, CHR 0x1C, CHR 0x1D,
                           CHR 0x1E, CHR 0x1F, CHR 0x20, CHR 0x85, CHR 0xA0])"

definition py_strip :: "string \<Rightarrow> string" where
  "py_strip s = rev (dropWhile is_space (rev (dropWhile is_space s)))"

text \<open>\<^verbatim>\<open>s.replace(old, new)\<close>: every occurrence of \<open>old\<close>, left to right, without overlap.\<close>

function py_replace :: "string \<Rightarrow> string \<Rightarrow> string \<Rightarrow> string" where
  "py_replace old new s =
     (if old = [] then new @ concat (map (\<lambda>c. c # new) s)
      else if s = [] then []
      else if take (length old) s = old then new @ py_replace old new (drop (length old) s)
      else hd s # py_replace old new (tl s))"
  by pat_completeness auto
termination
  by (relation "measure (\<lambda>(old, new, s). length s)") auto

declare py_replace.simps [simp del]

definition digit_char :: "nat \<Rightarrow> char" where
  "digit_char d = ''0123456789'' ! (d mod 10)"

fun digits :: "nat \<Rightarrow> string" where
  "digits n = (if n < 10 then [digit_char n] else digits (n div 10) @ [digit_char (n mod 10)])"

declare digits.simps [simp del]

definition str_int :: "int \<Rightarrow> string" where
  "str_int n = (if n < 0 then ''-'' @ digits (nat (- n)) else digits (nat n))"

subsection \<open>Numbers: comparison with 0, \<^verbatim>\<open>abs\<close>, and the format \<^verbatim>\<open>.2f\<close>\<close>

fun float_gt0 :: "pyfloat \<Rightarrow> bool" where
  "float_gt0 (Finite q) = (0 < q)"
| "float_gt0 PosInf = True"
| "float_gt0 NegInf = False"
| "float_gt0 NaN = False"

fun float_abs :: "pyfloat \<Rightarrow> pyfloat" where
  "float_abs (Finite q) = Finite \<bar>q\<bar>"
| "float_abs PosInf = PosInf"
| "float_abs NegInf = PosInf"
| "float_abs NaN = NaN"

text \<open>\<^verbatim>\<open>change_percent > 0\<close>: \<^verbatim>\<open>bool\<close> is a subtype of \<^verbatim>\<open>int\<close>; a value that is
  not a number raises \<^verbatim>\<open>TypeError\<close>.\<close>

fun py_gt0 :: "pyval \<Rightarrow> exc + bool" where
  "py_gt0 (PBool b) = Inr b"
| "py_gt0 (PInt n) = Inr (0 < n)"
| "py_gt0 (PFloat f) = Inr (float_gt0 f)"
| "py_gt0 v = Inl (TypeError (quote ''>'' @ '' not supported between instances of ''
                      @ quote (type_name v) @ '' and '' @ quote ''int''))"

fun py_abs :: "pyval \<Rightarrow> exc + pyval" where
  "py_abs (PBool b) = Inr (PInt (if b then 1 else 0))"
| "py_abs (PInt n) = Inr (PInt \<bar>n\<bar>)"
| "py_abs (PFloat f) = Inr (PFloat (float_abs f))"
| "py_abs v = Inl (TypeError (''bad operand type for abs(): '' @ quote (type_name v)))"

text \<open>Rounding to the nearest integer, ties to the even one: what the correctly rounded
  decimal conversion behind \<^verbatim>\<open>.2f\<close> does with the exact value of the float.\<close>

definition round_half_even :: "rat \<Rightarrow> int" where
  "round_half_even x =
     (let f = \<lfloor>x\<rfloor>; d = x - of_int f
      in if d < 1 / 2 then f else if 1 / 2 < d then f + 1 else if even f then f else f + 1)"

definition fmt_2f_rat :: "rat \<Rightarrow> string" where
  "fmt_2f_rat q =
     (let n = nat (round_half_even (\<bar>q\<bar> * 100))
      in (if q < 0 then ''-'' else '''') @ digits (n div 100) @ ''.''
         @ [digit_char (n mod 100 div 10), digit_char (n mod 10)])"

fun fmt_2f :: "pyfloat \<Rightarrow> string" where
  "fmt_2f (Finite q) = fmt_2f_rat q"
| "fmt_2f PosInf = ''inf''"
| "fmt_2f NegInf = ''-inf''"
| "fmt_2f NaN = ''nan''"

text \<open>
  Formatting an \<^verbatim>\<open>int\<close> with \<^verbatim>\<open>.2f\<close> converts it to a float first: the nearest
  value with 53 significant bits, ties to even, and \<^verbatim>\<open>OverflowError\<close> when that value
  reaches \<open>2 ^ 1024\<close>.
\<close>

fun bit_length :: "nat \<Rightarrow> nat" where
  "bit_length n = (if n = 0 then 0 else Suc (bit_length (n div 2)))"

declare bit_length.simps [simp del]

definition round_to_53 :: "nat \<Rightarrow> nat" where
  "round_to_53 m =
     (let b = bit_length m
      in if b \<le> 53 then m
         else let sh = b - 53; q = m div 2 ^ sh; r = m mod 2 ^ sh; h = 2 ^ (sh - 1);
                  q' = (if h < r \<or> (r = h \<and> odd q) then q + 1 else q)
              in q' * 2 ^ sh)"

definition float_of_int :: "int \<Rightarrow> exc + pyfloat" where
  "float_of_int n =
     (let v = round_to_53 (nat \<bar>n\<bar>)
      in if 2 ^ 1024 \<le> v then Inl (OverflowError ''int too large to convert to float'')
         else Inr (Finite (of_int (sgn n * int v))))"

fun py_format_2f :: "pyval \<Rightarrow> exc + string" where
  "py_format_2f (PFloat f) = Inr (fmt_2f f)"
| "py_format_2f (PInt n) = (case float_of_int n of Inl e \<Rightarrow> Inl e | Inr f \<Rightarrow> Inr (fmt_2f f))"
| "py_format_2f (PBool b) = Inr (fmt_2f (Finite (if b then 1 else 0)))"
| "py_format_2f (PStr s) = Inl (ValueError (''Unknown format code '' @ quote ''f''
                               @ '' for object of type '' @ quote ''str''))"
| "py_format_2f v = Inl (TypeError (''unsupported format string passed to '' @ type_name v @ ''.__format__''))"

section \<open>The outside world\<close>

text \<open>
  What the handlers do to the world is a log of events, oldest first: the pages requested,
  the lines printed, the seconds slept. The world answers a request for a URL with an
  exception or a parsed page, and the answer may depend on everything that happened before.

  A parsed page (\<^verbatim>\<open>BeautifulSoup(response.content, 'html.parser')\<close>) is known by the
  answers to the queries the scrapers make: the \<^verbatim>\<open>h3\<close> headings of class
  \<^verbatim>\<open>Mb(5px)\<close>, each with its text and its enclosing anchor if any; the
  \<^verbatim>\<open>article\<close> elements, each with its anchor of class \<^verbatim>\<open>JtKRv\<close> if any; the
  table of class \<^verbatim>\<open>fullview-news-outer\<close> if any, with the first anchor of each row.
\<close>

datatype event = Fetch string | Print string | Sleep nat

record anchor =
  a_text :: string
  a_attrs :: "(string \<times> string) list"

record heading =
  h_text :: string
  h_parent_a :: "anchor option"

record soup =
  find_all_h3 :: "heading list"
  find_all_article :: "anchor option list"
  find_news_table :: "anchor option list option"

text \<open>\<open>py_repr\<close> is the interpreter's \<^verbatim>\<open>str()\<close> of a float, a list or a dict, which
  the program only splices into URLs and texts.\<close>

record env =
  http_get :: "event list \<Rightarrow> string \<Rightarrow> exc + soup"
  py_repr :: "pyval \<Rightarrow> string"

fun fstr :: "env \<Rightarrow> pyval \<Rightarrow> string" where
  "fstr env (PStr s) = s"
| "fstr env PNone = ''None''"
| "fstr env (PBool b) = (if b then ''True'' else ''False'')"
| "fstr env (PInt n) = str_int n"
| "fstr env v = py_repr env v"

section \<open>Source scrapers\<close>

record source_result =
  sr_drivers :: "string list"
  sr_sources :: "string list"

definition citation :: "string \<Rightarrow> string \<Rightarrow> string" where
  "citation title link = take 50 title @ ''... - '' @ link"

text \<open>The body of each \<^verbatim>\<open>for\<close> loop, on the two lists it appends to.\<close>

definition yahoo_step :: "heading \<Rightarrow> string list \<times> string list \<Rightarrow> string list \<times> string list" where
  "yahoo_step article acc =
     (let title = py_strip (h_text article);
          link = (case h_parent_a article of
                    None \<Rightarrow> []
                  | Some link_elem \<Rightarrow>
                      (case map_of (a_attrs link_elem) ''href'' of
                         None \<Rightarrow> []
                       | Some href \<Rightarrow> ''https://finance.yahoo.com'' @ href))
      in if title \<noteq> [] then
           (fst acc @ [title], if link \<noteq> [] then snd acc @ [citation title link] else snd acc)
         else acc)"

definition google_step :: "anchor option \<Rightarrow> string list \<times> string list \<Rightarrow> string list \<times> string list" where
  "google_step article acc =
     (case article of
        None \<Rightarrow> acc
      | Some title_elem \<Rightarrow>
          (let title = py_strip (a_text title_elem);
               link = (case map_of (a_attrs title_elem) ''href'' of
                         None \<Rightarrow> []
                       | Some href \<Rightarrow> ''https://news.google.com'' @ drop 1 href)
           in if title \<noteq> [] then
                (fst acc @ [title], if link \<noteq> [] then snd acc @ [citation title link] else snd acc)
              else acc))"

definition finviz_step :: "anchor option \<Rightarrow> string list \<times> string list \<Rightarrow> string list \<times> string list" where
  "finviz_step item acc =
     (case item of
        None \<Rightarrow> acc
      | Some link_elem \<Rightarrow>
          (let title = py_strip (a_text link_elem);
               link = (case map_of (a_attrs link_elem) ''href'' of None \<Rightarrow> [] | Some href \<Rightarrow> href)
           in if title \<noteq> [] then
                (fst acc @ [title], if link \<noteq> [] then snd acc @ [citation title link] else snd acc)
              else acc))"

definition result_of :: "string list \<times> string list \<Rightarrow> source_result option" where
  "result_of acc =
     (if fst acc \<noteq> [] then Some \<lparr>sr_drivers = fst acc, sr_sources = snd acc\<rparr> else None)"

text \<open>
  Each scraper is the body of its \<^verbatim>\<open>try\<close>, which may raise, and the handler around
  it, which prints and returns \<^verbatim>\<open>None\<close>.
\<close>

definition yahoo_url :: "env \<Rightarrow> pyval \<Rightarrow> string" where
  "yahoo_url env symbol = ''https://finance.yahoo.com/quote/'' @ fstr env symbol @ ''/news''"

definition scrape_yahoo_finance_news_body ::
    "env \<Rightarrow> event list \<Rightarrow> pyval \<Rightarrow> pyval \<Rightarrow> (exc + source_result option) \<times> event list" where
  "scrape_yahoo_finance_news_body env st symbol name =
     (let url = yahoo_url env symbol
      in case http_get env st url of
           Inl e \<Rightarrow> (Inl e, st @ [Fetch url])
         | Inr page \<Rightarrow>
             (Inr (result_of (fold yahoo_step (take 3 (find_all_h3 page)) ([], []))), st @ [Fetch url]))"

definition scrape_yahoo_finance_news ::
    "env \<Rightarrow> event list \<Rightarrow> pyval \<Rightarrow> pyval \<Rightarrow> source_result option \<times> event list" where
  "scrape_yahoo_finance_news env st symbol name =
     (case scrape_yahoo_finance_news_body env st symbol name of
        (Inl e, st') \<Rightarrow> (None, st' @ [Print (''Yahoo Finance scraping error: '' @ str_exc e)])
      | (Inr r, st') \<Rightarrow> (r, st'))"

definition google_url :: "env \<Rightarrow> pyval \<Rightarrow> string" where
  "google_url env name =
     (let query = fstr env name @ '' stock market news''
      in ''https://news.google.com/search?q='' @ py_replace '' '' ''+'' query
         @ ''&hl=en-US&gl=US&ceid=US:en'')"

definition scrape_google_news_body ::
    "env \<Rightarrow> event list \<Rightarrow> pyval \<Rightarrow> pyval \<Rightarrow> (exc + source_result option) \<times> event list" where
  "scrape_google_news_body env st name change_percent =
     (let url = google_url env name
      in case http_get env st url of
           Inl e \<Rightarrow> (Inl e, st @ [Fetch url])
         | Inr page \<Rightarrow>
             (Inr (result_of (fold google_step (take 3 (find_all_article page)) ([], []))),
              st @ [Fetch url]))"

definition scrape_google_news ::
    "env \<Rightarrow> event list \<Rightarrow> pyval \<Rightarrow> pyval \<Rightarrow> source_result option \<times> event list" where
  "scrape_google_news env st name change_percent =
     (case scrape_google_news_body env st name change_percent of
        (Inl e, st') \<Rightarrow> (None, st' @ [Print (''Google News scraping error: '' @ str_exc e)])
      | (Inr r, st') \<Rightarrow> (r, st'))"

text \<open>\<^verbatim>\<open>symbol.replace\<close> exists on strings only.\<close>

fun str_replace :: "pyval \<Rightarrow> string \<Rightarrow> string \<Rightarrow> exc + string" where
  "str_replace (PStr s) old new = Inr (py_replace old new s)"
| "str_replace v old new =
     Inl (AttributeError (quote (type_name v) @ '' object has no attribute '' @ quote ''replace''))"

text \<open>The ticker is the symbol with \<^verbatim>\<open>^\<close>, \<^verbatim>\<open>=X\<close> and \<^verbatim>\<open>=F\<close> removed, in
  this order; \<open>finviz_url\<close> takes the symbol after the first removal.\<close>

definition finviz_url :: "string \<Rightarrow> string" where
  "finviz_url t =
     (let ticker = py_replace ''=F'' [] (py_replace ''=X'' [] t)
      in ''https://finviz.com/quote.ashx?t='' @ ticker)"

definition scrape_finviz_news_body ::
    "env \<Rightarrow> event list \<Rightarrow> pyval \<Rightarrow> pyval \<Rightarrow> (exc + source_result option) \<times> event list" where
  "scrape_finviz_news_body env st symbol name =
     (case str_replace symbol ''^'' [] of
        Inl e \<Rightarrow> (Inl e, st)
      | Inr t \<Rightarrow>
          (let url = finviz_url t
           in case http_get env st url of
                Inl e \<Rightarrow> (Inl e, st @ [Fetch url])
              | Inr page \<Rightarrow>
                  (Inr (result_of
                     (case find_news_table page of
                        None \<Rightarrow> ([], [])
                      | Some rows \<Rightarrow> fold finviz_step (take 3 rows) ([], []))),
                   st @ [Fetch url])))"

definition scrape_finviz_news ::
    "env \<Rightarrow> event list \<Rightarrow> pyval \<Rightarrow> pyval \<Rightarrow> source_result option \<times> event list" where
  "scrape_finviz_news env st symbol name =
     (case scrape_finviz_news_body env st symbol name of
        (Inl e, st') \<Rightarrow> (None, st' @ [Print (''Finviz scraping error: '' @ str_exc e)])
      | (Inr r, st') \<Rightarrow> (r, st'))"

section \<open>Analysis aggregator\<close>

text \<open>The dict \<^verbatim>\<open>{"drivers": ..., "sources": ..., "method": ...}\<close>; the field
  \<open>method_tag\<close> is its key \<^verbatim>\<open>method\<close>.\<close>

record analysis_result =
  drivers :: "string list"
  sources :: "string list"
  method_tag :: string

text \<open>\<^verbatim>\<open>list(dict.fromkeys(xs))\<close>: the keys of a dict in the order of their first
  insertion; inserting a key that is there already changes nothing.\<close>

definition fromkeys :: "'a list \<Rightarrow> 'a list" where
  "fromkeys xs = fold (\<lambda>x d. if x \<in> set d then d else d @ [x]) xs []"

text \<open>\<^verbatim>\<open>if news: drivers.extend(news['drivers']); sources.extend(news['sources'])\<close>\<close>

definition extend_with :: "source_result option \<Rightarrow> string list \<times> string list \<Rightarrow> string list \<times> string list" where
  "extend_with news acc =
     (case news of
        None \<Rightarrow> acc
      | Some r \<Rightarrow> (fst acc @ sr_drivers r, snd acc @ sr_sources r))"

text \<open>The generic analysis given when no driver was found; each step may raise.\<close>

definition fallback :: "env \<Rightarrow> pyval \<Rightarrow> pyval \<Rightarrow> pyval \<Rightarrow> exc + string list \<times> string list" where
  "fallback env symbol name change_percent =
     (case py_gt0 change_percent of
        Inl e \<Rightarrow> Inl e
      | Inr up \<Rightarrow>
     (case py_abs change_percent of
        Inl e \<Rightarrow> Inl e
      | Inr a \<Rightarrow>
     (case py_format_2f a of
        Inl e \<Rightarrow> Inl e
      | Inr amount \<Rightarrow>
     (case str_replace symbol ''^'' [] of
        Inl e \<Rightarrow> Inl e
      | Inr bare \<Rightarrow>
          Inr ([fstr env name @ '' '' @ (if up then ''increased'' else ''decreased'') @ '' by ''
                  @ amount @ ''% during this period.'',
                ''Check financial news sources for detailed analysis of market conditions.'',
                ''Consider broader market trends and sector-specific factors.''],
               [''Yahoo Finance - https://finance.yahoo.com/quote/'' @ fstr env symbol,
                ''Google Finance - https://www.google.com/finance/quote/'' @ bare @ '':INDEXSP''])))))"

text \<open>Everything in \<^verbatim>\<open>get_free_news_analysis\<close> after the three scraper calls, on the
  lists the calls have filled.\<close>

definition aggregate :: "env \<Rightarrow> pyval \<Rightarrow> pyval \<Rightarrow> pyval \<Rightarrow> string list \<times> string list \<Rightarrow> exc + analysis_result" where
  "aggregate env symbol name change_percent acc =
     (let ds = take 3 (fromkeys (fst acc));
          ss = take 5 (fromkeys (snd acc))
      in if ds = [] then
           (case fallback env symbol name change_percent of
              Inl e \<Rightarrow> Inl e
            | Inr fb \<Rightarrow> Inr \<lparr>drivers = fst fb, sources = snd fb, method_tag = ''free_scraping''\<rparr>)
         else Inr \<lparr>drivers = ds, sources = ss, method_tag = ''free_scraping''\<rparr>)"

definition get_free_news_analysis_body ::
    "env \<Rightarrow> event list \<Rightarrow> pyval \<Rightarrow> pyval \<Rightarrow> pyval \<Rightarrow> pyval \<Rightarrow> pyval
       \<Rightarrow> (exc + analysis_result) \<times> event list" where
  "get_free_news_analysis_body env st symbol name change_percent start_date end_date =
     (case scrape_yahoo_finance_news env st symbol name of
        (yahoo_news, st1) \<Rightarrow>
     (case scrape_google_news env st1 name change_percent of
        (google_news, st2) \<Rightarrow>
     (case scrape_finviz_news env st2 symbol name of
        (finviz_news, st3) \<Rightarrow>
          (aggregate env symbol name change_percent
             (extend_with finviz_news (extend_with google_news (extend_with yahoo_news ([], [])))),
           st3))))"

definition error_result :: "exc \<Rightarrow> analysis_result" where
  "error_result e =
     \<lparr>drivers = [''Unable to fetch news: '' @ str_exc e], sources = [], method_tag = ''error''\<rparr>"

definition get_free_news_analysis ::
    "env \<Rightarrow> event list \<Rightarrow> pyval \<Rightarrow> pyval \<Rightarrow> pyval \<Rightarrow> pyval \<Rightarrow> pyval
       \<Rightarrow> analysis_result \<times> event list" where
  "get_free_news_analysis env st symbol name change_percent start_date end_date =
     (case get_free_news_analysis_body env st symbol name change_percent start_date end_date of
        (Inl e, st') \<Rightarrow> (error_result e, st')
      | (Inr r, st') \<Rightarrow> (r, st'))"

section \<open>The two endpoints\<close>

record item =
  symbol :: pyval
  name :: pyval
  changePercent :: pyval
  analysis :: analysis_result

record health =
  health_status :: string
  health_method :: string
  health_sources :: "string list"
  timestamp :: string

datatype resp_body = ErrorBody string | AnalysesBody "item list" | HealthBody health

record response =
  status :: nat
  body :: resp_body

text \<open>The three subscriptions at the head of the loop body, in the order of the source.\<close>

definition item_fields :: "pyval \<Rightarrow> exc + pyval \<times> pyval \<times> pyval" where
  "item_fields symbol_data =
     (case py_subscript symbol_data ''symbol'' of
        Inl e \<Rightarrow> Inl e
      | Inr s \<Rightarrow>
     (case py_subscript symbol_data ''name'' of
        Inl e \<Rightarrow> Inl e
      | Inr n \<Rightarrow>
     (case py_subscript symbol_data ''changePercent'' of
        Inl e \<Rightarrow> Inl e
      | Inr c \<Rightarrow> Inr (s, n, c))))"

text \<open>The \<^verbatim>\<open>for\<close> loop of \<^verbatim>\<open>analyze_market\<close>, with the list \<^verbatim>\<open>analyses\<close> it
  appends to. An exception ends it; what was done to the world stays done.\<close>

fun analyze_loop ::
    "env \<Rightarrow> event list \<Rightarrow> pyval \<Rightarrow> pyval \<Rightarrow> pyval list \<Rightarrow> item list
       \<Rightarrow> (exc + item list) \<times> event list" where
  "analyze_loop env st start_date end_date [] analyses = (Inr analyses, st)"
| "analyze_loop env st start_date end_date (symbol_data # rest) analyses =
     (case item_fields symbol_data of
        Inl e \<Rightarrow> (Inl e, st)
      | Inr (s, n, c) \<Rightarrow>
          (case get_free_news_analysis env st s n c start_date end_date of
             (a, st') \<Rightarrow>
               analyze_loop env (st' @ [Sleep 1]) start_date end_date rest
                 (analyses @ [\<lparr>symbol = s, name = n, changePercent = c, analysis = a\<rparr>])))"

text \<open>\<open>data\<close> is \<^verbatim>\<open>request.json\<close>, the decoded body of the request.\<close>

definition analyze_market_body :: "env \<Rightarrow> event list \<Rightarrow> pyval \<Rightarrow> (exc + response) \<times> event list" where
  "analyze_market_body env st data =
     (case py_get data ''symbols'' (PList []) of
        Inl e \<Rightarrow> (Inl e, st)
      | Inr symbols \<Rightarrow>
     (case py_get data ''startDate'' PNone of
        Inl e \<Rightarrow> (Inl e, st)
      | Inr start_date \<Rightarrow>
     (case py_get data ''endDate'' PNone of
        Inl e \<Rightarrow> (Inl e, st)
      | Inr end_date \<Rightarrow>
          if \<not> truthy symbols then
            (Inr \<lparr>status = 400, body = ErrorBody ''No symbols provided''\<rparr>, st)
          else
            (case py_iter symbols of
               Inl e \<Rightarrow> (Inl e, st)
             | Inr xs \<Rightarrow>
                 (case analyze_loop env st start_date end_date xs [] of
                    (Inl e, st') \<Rightarrow> (Inl e, st')
                  | (Inr analyses, st') \<Rightarrow>
                      (Inr \<lparr>status = 200, body = AnalysesBody analyses\<rparr>, st'))))))"

definition analyze_market :: "env \<Rightarrow> event list \<Rightarrow> pyval \<Rightarrow> response \<times> event list" where
  "analyze_market env st data =
     (case analyze_market_body env st data of
        (Inl e, st') \<Rightarrow> (\<lparr>status = 500, body = ErrorBody (str_exc e)\<rparr>, st')
      | (Inr r, st') \<Rightarrow> (r, st'))"

subsection \<open>The health check and its timestamp\<close>

text \<open>\<^verbatim>\<open>datetime.now()\<close> reads the clock: a naive local date and time, given to the
  handler as \<open>now\<close>. \<^verbatim>\<open>isoformat()\<close> leaves the fraction out when it is zero.\<close>

record datetime =
  dt_year :: nat
  dt_month :: nat
  dt_day :: nat
  dt_hour :: nat
  dt_minute :: nat
  dt_second :: nat
  dt_microsecond :: nat

definition leap_year :: "nat \<Rightarrow> bool" where
  "leap_year y = (y mod 4 = 0 \<and> (y mod 100 \<noteq> 0 \<or> y mod 400 = 0))"

definition days_in_month :: "nat \<Rightarrow> nat \<Rightarrow> nat" where
  "days_in_month y m =
     (if m = 2 then (if leap_year y then 29 else 28)
      else if m = 4 \<or> m = 6 \<or> m = 9 \<or> m = 11 then 30 else 31)"

definition valid_datetime :: "datetime \<Rightarrow> bool" where
  "valid_datetime d =
     (1 \<le> dt_year d \<and> dt_year d \<le> 9999 \<and> 1 \<le> dt_month d \<and> dt_month d \<le> 12
      \<and> 1 \<le> dt_day d \<and> dt_day d \<le> days_in_month (dt_year d) (dt_month d)
      \<and> dt_hour d < 24 \<and> dt_minute d < 60 \<and> dt_second d < 60 \<and> dt_microsecond d < 1000000)"

definition zpad :: "nat \<Rightarrow> nat \<Rightarrow> string" where
  "zpad k n = replicate (k - length (digits n)) (CHR ''0'') @ digits n"

definition isoformat :: "datetime \<Rightarrow> string" where
  "isoformat d =
     zpad 4 (dt_year d) @ ''-'' @ zpad 2 (dt_month d) @ ''-'' @ zpad 2 (dt_day d) @ ''T''
     @ zpad 2 (dt_hour d) @ '':'' @ zpad 2 (dt_minute d) @ '':'' @ zpad 2 (dt_second d)
     @ (if dt_microsecond d = 0 then [] else ''.'' @ zpad 6 (dt_microsecond d))"

definition health_check :: "event list \<Rightarrow> datetime \<Rightarrow> response \<times> event list" where
  "health_check st now =
     (\<lparr>status = 200,
       body = HealthBody \<lparr>health_status = ''healthy'', health_method = ''free_scraping'',
                          health_sources = [''Yahoo Finance'', ''Google News'', ''Finviz''],
                          timestamp = isoformat now\<rparr>\<rparr>,
      st)"

section \<open>What the specification says, in its own words\<close>

text \<open>Deduplication by equality, first occurrence wins, order kept: the element at index
  \<open>i\<close> stays exactly when it does not occur before \<open>i\<close>.\<close>

definition first_occurrences :: "'a list \<Rightarrow> 'a list" where
  "first_occurrences xs =
     map (\<lambda>i. xs ! i) (filter (\<lambda>i. xs ! i \<notin> set (take i xs)) [0..<length xs])"

text \<open>A reader of ISO-8601 calendar date and time in the extended format,
  \<^verbatim>\<open>YYYY-MM-DDTHH:MM:SS\<close> with an optional fraction of six digits: it returns the date
  and time the text denotes, or nothing when the text is not of that form or denotes no
  date.\<close>

definition digit_val :: "char \<Rightarrow> nat option" where
  "digit_val c =
     (let n = (of_char c :: nat) in if 48 \<le> n \<and> n \<le> 57 then Some (n - 48) else None)"

fun parse_digits :: "nat \<Rightarrow> string \<Rightarrow> nat option" where
  "parse_digits acc [] = Some acc"
| "parse_digits acc (c # cs) =
     (case digit_val c of None \<Rightarrow> None | Some d \<Rightarrow> parse_digits (10 * acc + d) cs)"

definition parse_nat :: "string \<Rightarrow> nat option" where
  "parse_nat s = (if s = [] then None else parse_digits 0 s)"

definition parse_iso8601 :: "string \<Rightarrow> datetime option" where
  "parse_iso8601 s =
     (if (length s = 19 \<or> (length s = 26 \<and> s ! 19 = CHR ''.''))
         \<and> s ! 4 = CHR ''-'' \<and> s ! 7 = CHR ''-'' \<and> s ! 10 = CHR ''T''
         \<and> s ! 13 = CHR '':'' \<and> s ! 16 = CHR '':''
      then
        (case (parse_nat (take 4 s), parse_nat (take 2 (drop 5 s)), parse_nat (take 2 (drop 8 s)),
               parse_nat (take 2 (drop 11 s)), parse_nat (take 2 (drop 14 s)),
               parse_nat (take 2 (drop 17 s)),
               if length s = 19 then Some 0 else parse_nat (drop 20 s)) of
           (Some y, Some mo, Some d, Some h, Some mi, Some sec, Some us) \<Rightarrow>
             (let dt = \<lparr>dt_year = y, dt_month = mo, dt_day = d, dt_hour = h, dt_minute = mi,
                        dt_second = sec, dt_microsecond = us\<rparr>
              in if valid_datetime dt then Some dt else None)
         | _ \<Rightarrow> None)
      else None)"

text \<open>What a scraper call contributes to the concatenated lists: nothing when it returned
  no result.\<close>

definition drivers_of :: "source_result option \<Rightarrow> string list" where
  "drivers_of news = (case news of None \<Rightarrow> [] | Some r \<Rightarrow> sr_drivers r)"

definition sources_of :: "source_result option \<Rightarrow> string list" where
  "sources_of news = (case news of None \<Rightarrow> [] | Some r \<Rightarrow> sr_sources r)"

section \<open>Sample worlds and inputs\<close>

text \<open>A world in which every request fails.\<close>

definition offline :: env where
  "offline = \<lparr>http_get = (\<lambda>st url. Inl (OtherError ''connection refused'')), py_repr = (\<lambda>v. ''?'')\<rparr>"

text \<open>A world in which every page has matching elements but none with a text.\<close>

definition blank_page :: soup where
  "blank_page = \<lparr>find_all_h3 = [\<lparr>h_text = ''  '', h_parent_a = None\<rparr>],
                  find_all_article = [None, Some \<lparr>a_text = '' '', a_attrs = [(''href'', ''./x'')]\<rparr>],
                  find_news_table = Some [None]\<rparr>"

definition blank :: env where
  "blank = \<lparr>http_get = (\<lambda>st url. Inr blank_page), py_repr = (\<lambda>v. ''?'')\<rparr>"

text \<open>A world in which every page shows one headline that is not inside a link.\<close>

definition headline_page :: soup where
  "headline_page = \<lparr>find_all_h3 = [\<lparr>h_text = '' Fed holds rates steady '', h_parent_a = None\<rparr>],
                     find_all_article = [], find_news_table = None\<rparr>"

definition headlines_without_links :: env where
  "headlines_without_links = \<lparr>http_get = (\<lambda>st url. Inr headline_page), py_repr = (\<lambda>v. ''?'')\<rparr>"

text \<open>Sample instruments and a request around them.\<close>

definition sp500 :: pyval where
  "sp500 = PDict [(''symbol'', PStr ''^GSPC''), (''name'', PStr ''S&P 500''),
                  (''changePercent'', PFloat (Finite (5 / 2)))]"

definition dow_null :: pyval where
  "dow_null = PDict [(''symbol'', PStr ''^DJI''), (''name'', PStr ''Dow Jones''),
                     (''changePercent'', PNone)]"

definition nasdaq :: pyval where
  "nasdaq = PDict [(''symbol'', PStr ''^IXIC''), (''name'', PStr ''Nasdaq''),
                   (''changePercent'', PFloat (Finite (- 2)))]"

definition nameless :: pyval where
  "nameless = PDict [(''symbol'', PStr ''^FTSE''), (''changePercent'', PInt 1)]"

definition request :: "pyval list \<Rightarrow> string \<Rightarrow> string \<Rightarrow> pyval" where
  "request xs start_date end_date =
     PDict [(''symbols'', PList xs), (''startDate'', PStr start_date), (''endDate'', PStr end_date)]"

section \<open>Requests and responses, as the specification reads them\<close>

text \<open>An element of the request carries the three keys with these values.\<close>

definition instrument :: "pyval \<Rightarrow> pyval \<Rightarrow> pyval \<Rightarrow> pyval \<Rightarrow> bool" where
  "instrument x s n c =
     (case x of
        PDict d \<Rightarrow> map_of d ''symbol'' = Some s \<and> map_of d ''name'' = Some n
                   \<and> map_of d ''changePercent'' = Some c
      | _ \<Rightarrow> False)"

text \<open>The \<^verbatim>\<open>analyses\<close> array of a response.\<close>

definition analyses_of :: "response \<Rightarrow> item list" where
  "analyses_of r = (case body r of AnalysesBody items \<Rightarrow> items | _ \<Rightarrow> [])"

text \<open>An item answers an element of the request: same three item_fields, and the analysis the
  aggregator gave for them in some state of the world.\<close>

definition answers :: "env \<Rightarrow> pyval \<Rightarrow> item \<Rightarrow> bool" where
  "answers env x it =
     (instrument x (symbol it) (name it) (changePercent it)
      \<and> (\<exists>st. analysis it =
                 fst (get_free_news_analysis env st (symbol it) (name it) (changePercent it) PNone PNone)))"

section \<open>Deduplication and truncation\<close>

lemma fromkeys_snoc:
  "fromkeys (xs @ [x]) = (if x \<in> set (fromkeys xs) then fromkeys xs else fromkeys xs @ [x])"
  by (simp add: fromkeys_def)

lemma fromkeys_Nil: "fromkeys [] = []"
  by (simp add: fromkeys_def)

lemma set_fromkeys: "set (fromkeys xs) = set xs"
  by (induction xs rule: rev_induct) (auto simp: fromkeys_snoc fromkeys_Nil)

lemma first_occurrences_snoc:
  "first_occurrences (xs @ [x]) =
     (if x \<in> set xs then first_occurrences xs else first_occurrences xs @ [x])"
proof -
  define P where "P = (\<lambda>i. (xs @ [x]) ! i \<notin> set (take i (xs @ [x])))"
  define Q where "Q = (\<lambda>i. xs ! i \<notin> set (take i xs))"
  have keep: "filter P [0..<length xs] = filter Q [0..<length xs]"
    unfolding P_def Q_def by (rule filter_cong) (auto simp: nth_append)
  have same: "map (\<lambda>i. (xs @ [x]) ! i) (filter Q [0..<length xs])
              = map (\<lambda>i. xs ! i) (filter Q [0..<length xs])"
    by (rule map_cong) (auto simp: nth_append)
  have final: "P (length xs) = (x \<notin> set xs)"
    by (simp add: P_def)
  have "first_occurrences (xs @ [x])
        = map (\<lambda>i. (xs @ [x]) ! i) (filter P ([0..<length xs] @ [length xs]))"
    by (simp add: first_occurrences_def P_def)
  also have "\<dots> = map (\<lambda>i. (xs @ [x]) ! i) (filter P [0..<length xs])
                   @ (if P (length xs) then [x] else [])"
    by simp
  also have "\<dots> = first_occurrences xs @ (if x \<notin> set xs then [x] else [])"
    unfolding keep same final by (simp only: first_occurrences_def Q_def)
  finally show ?thesis by simp
qed

lemma fromkeys_first_occurrences: "fromkeys xs = first_occurrences xs"
proof (induction xs rule: rev_induct)
  case Nil
  show ?case by (simp add: first_occurrences_def fromkeys_Nil)
next
  case (snoc x xs)
  have "fromkeys (xs @ [x]) = (if x \<in> set xs then fromkeys xs else fromkeys xs @ [x])"
    by (simp add: fromkeys_snoc set_fromkeys)
  then show ?case
    by (simp add: first_occurrences_snoc snoc.IH)
qed

lemma extend_with_all:
  "extend_with f (extend_with g (extend_with y ([], []))) =
     (drivers_of y @ drivers_of g @ drivers_of f, sources_of y @ sources_of g @ sources_of f)"
  by (simp add: extend_with_def drivers_of_def sources_of_def split: option.splits)

lemma fallback_lengths:
  "fallback env sy nm cp = Inr fb \<Longrightarrow> length (fst fb) = 3 \<and> length (snd fb) = 2"
  by (auto simp: fallback_def split: sum.splits)

lemma aggregate_merged:
  "take 3 (fromkeys D) \<noteq> [] \<Longrightarrow>
   aggregate env sy nm cp (D, S) =
     Inr \<lparr>drivers = take 3 (fromkeys D), sources = take 5 (fromkeys S), method_tag = ''free_scraping''\<rparr>"
  by (simp add: aggregate_def Let_def)

lemma aggregate_bounds:
  "aggregate env sy nm cp acc = Inr r \<Longrightarrow> length (drivers r) \<le> 3 \<and> length (sources r) \<le> 5"
  by (auto simp: aggregate_def Let_def split: if_splits sum.splits dest: fallback_lengths)

lemma get_free_news_analysis_bounds:
  "length (drivers (fst (get_free_news_analysis env st sy nm cp sd ed))) \<le> 3
   \<and> length (sources (fst (get_free_news_analysis env st sy nm cp sd ed))) \<le> 5"
  by (auto simp: get_free_news_analysis_def get_free_news_analysis_body_def error_result_def
      split: prod.splits sum.splits dest: aggregate_bounds)

text \<open>
  Claim C3. The merge step of the aggregator deduplicates the concatenated drivers by
  equality, the first occurrence staying in its place (\<open>A, B, A, C\<close> becomes \<open>A, B, C\<close>),
  and keeps the first 3; it does the same for the sources and keeps the first 5. The
  lists it works on are the scrapers' outputs concatenated in call order. Every result of
  the aggregator, merged, generic or error, has at most 3 drivers and at most 5 sources.
\<close>

theorem dedupe_and_truncate:
  "fromkeys [''A'', ''B'', ''A'', ''C''] = [''A'', ''B'', ''C'']
   \<and> fromkeys xs = first_occurrences xs
   \<and> extend_with f (extend_with g (extend_with y ([], []))) =
       (drivers_of y @ drivers_of g @ drivers_of f, sources_of y @ sources_of g @ sources_of f)
   \<and> (take 3 (first_occurrences D) \<noteq> [] \<longrightarrow>
        aggregate env sy nm cp (D, S) =
          Inr \<lparr>drivers = take 3 (first_occurrences D), sources = take 5 (first_occurrences S),
               method_tag = ''free_scraping''\<rparr>)
   \<and> length (drivers (fst (get_free_news_analysis env st sy nm cp sd ed))) \<le> 3
   \<and> length (sources (fst (get_free_news_analysis env st sy nm cp sd ed))) \<le> 5"
proof -
  have ex: "fromkeys [''A'', ''B'', ''A'', ''C''] = [''A'', ''B'', ''C'']"
    by (simp add: fromkeys_def)
  have merged: "take 3 (first_occurrences D) \<noteq> [] \<longrightarrow>
        aggregate env sy nm cp (D, S) =
          Inr \<lparr>drivers = take 3 (first_occurrences D), sources = take 5 (first_occurrences S),
               method_tag = ''free_scraping''\<rparr>"
    using aggregate_merged [of D env sy nm cp S]
    by (simp add: fromkeys_first_occurrences)
  show ?thesis
    using ex merged fromkeys_first_occurrences [of xs] extend_with_all [of f g y]
      get_free_news_analysis_bounds [of env st sy nm cp sd ed]
    by blast
qed

theorem dedupe_and_truncate_witness:
  "take 3 (first_occurrences [''A'', ''B'', ''A'', ''C'', ''D'']) \<noteq> []
   \<and> aggregate offline (PStr ''^GSPC'') (PStr ''S&P 500'') (PFloat (Finite (5 / 2)))
        ([''A'', ''B'', ''A'', ''C'', ''D''], [''s1'', ''s2'', ''s1'', ''s3'', ''s4'', ''s5'', ''s6'']) =
      Inr \<lparr>drivers = [''A'', ''B'', ''C''], sources = [''s1'', ''s2'', ''s3'', ''s4'', ''s5''],
           method_tag = ''free_scraping''\<rparr>"
proof -
  have d: "first_occurrences [''A'', ''B'', ''A'', ''C'', ''D''] = [''A'', ''B'', ''C'', ''D'']"
    using dedupe_and_truncate [of "[''A'', ''B'', ''A'', ''C'', ''D'']"]
    by (simp add: fromkeys_def)
  have s: "first_occurrences [''s1'', ''s2'', ''s1'', ''s3'', ''s4'', ''s5'', ''s6'']
           = [''s1'', ''s2'', ''s3'', ''s4'', ''s5'', ''s6'']"
    using dedupe_and_truncate [of "[''s1'', ''s2'', ''s1'', ''s3'', ''s4'', ''s5'', ''s6'']"]
    by (simp add: fromkeys_def)
  show ?thesis
    using dedupe_and_truncate [where D = "[''A'', ''B'', ''A'', ''C'', ''D'']" and env = offline
        and sy = "PStr ''^GSPC''" and nm = "PStr ''S&P 500''" and cp = "PFloat (Finite (5 / 2))"
        and S = "[''s1'', ''s2'', ''s1'', ''s3'', ''s4'', ''s5'', ''s6'']"
        and xs = "[] :: string list" and f = None and g = None and y = None and st = "[]"
        and sd = PNone and ed = PNone]
    by (simp add: d s)
qed

section \<open>Source scrapers: failures become no result\<close>

text \<open>The drivers a scraper's loop collects are the non-empty trimmed texts, in order.\<close>

lemma yahoo_fold_drivers:
  "fst (fold yahoo_step hs acc) = fst acc @ filter (\<lambda>t. t \<noteq> []) (map (\<lambda>h. py_strip (h_text h)) hs)"
  by (induction hs arbitrary: acc) (simp_all add: yahoo_step_def Let_def)

lemma google_fold_drivers:
  "fst (fold google_step as acc) =
     fst acc @ filter (\<lambda>t. t \<noteq> []) (map (\<lambda>a. case a of None \<Rightarrow> [] | Some t \<Rightarrow> py_strip (a_text t)) as)"
  by (induction as arbitrary: acc) (simp_all add: google_step_def Let_def split: option.splits)

lemma finviz_fold_drivers:
  "fst (fold finviz_step as acc) =
     fst acc @ filter (\<lambda>t. t \<noteq> []) (map (\<lambda>a. case a of None \<Rightarrow> [] | Some t \<Rightarrow> py_strip (a_text t)) as)"
  by (induction as arbitrary: acc) (simp_all add: finviz_step_def Let_def split: option.splits)

lemma filter_nonempty_Nil: "(filter (\<lambda>t. t \<noteq> []) (map f xs) = []) = (\<forall>x\<in>set xs. f x = [])"
  by (induction xs) auto

text \<open>
  Claim C7. For each of the three scrapers: when the request raises, the scraper prints the
  error and returns no result; when none of the (at most three) elements it looks at has a
  text, it returns no result; and whatever exception the body of its \<^verbatim>\<open>try\<close> raises,
  the scraper returns no result, so nothing reaches the aggregator. The Finviz scraper,
  given a symbol that is not a string, fails before it requests anything and returns no
  result as well.
\<close>

theorem scrapers_swallow_failures:
  "(http_get env st (yahoo_url env sy) = Inl e \<longrightarrow>
      scrape_yahoo_finance_news env st sy nm =
        (None, st @ [Fetch (yahoo_url env sy), Print (''Yahoo Finance scraping error: '' @ str_exc e)]))
   \<and> (http_get env st (yahoo_url env sy) = Inr page
        \<and> (\<forall>h\<in>set (take 3 (find_all_h3 page)). py_strip (h_text h) = []) \<longrightarrow>
      scrape_yahoo_finance_news env st sy nm = (None, st @ [Fetch (yahoo_url env sy)]))
   \<and> (fst (scrape_yahoo_finance_news_body env st sy nm) = Inl e \<longrightarrow>
      fst (scrape_yahoo_finance_news env st sy nm) = None)
   \<and> (http_get env st (google_url env nm) = Inl e \<longrightarrow>
      scrape_google_news env st nm cp =
        (None, st @ [Fetch (google_url env nm), Print (''Google News scraping error: '' @ str_exc e)]))
   \<and> (http_get env st (google_url env nm) = Inr page
        \<and> (\<forall>a\<in>set (take 3 (find_all_article page)).
              case a of None \<Rightarrow> True | Some t \<Rightarrow> py_strip (a_text t) = []) \<longrightarrow>
      scrape_google_news env st nm cp = (None, st @ [Fetch (google_url env nm)]))
   \<and> (fst (scrape_google_news_body env st nm cp) = Inl e \<longrightarrow>
      fst (scrape_google_news env st nm cp) = None)
   \<and> (str_replace sy ''^'' [] = Inl e \<longrightarrow>
      scrape_finviz_news env st sy nm = (None, st @ [Print (''Finviz scraping error: '' @ str_exc e)]))
   \<and> (str_replace sy ''^'' [] = Inr t \<and> http_get env st (finviz_url t) = Inl e \<longrightarrow>
      scrape_finviz_news env st sy nm =
        (None, st @ [Fetch (finviz_url t), Print (''Finviz scraping error: '' @ str_exc e)]))
   \<and> (str_replace sy ''^'' [] = Inr t \<and> http_get env st (finviz_url t) = Inr page
        \<and> (case find_news_table page of
              None \<Rightarrow> True
            | Some rows \<Rightarrow> \<forall>a\<in>set (take 3 rows).
                             case a of None \<Rightarrow> True | Some l \<Rightarrow> py_strip (a_text l) = []) \<longrightarrow>
      scrape_finviz_news env st sy nm = (None, st @ [Fetch (finviz_url t)]))
   \<and> (fst (scrape_finviz_news_body env st sy nm) = Inl e \<longrightarrow>
      fst (scrape_finviz_news env st sy nm) = None)"
proof -
  have y1: "http_get env st (yahoo_url env sy) = Inl e \<longrightarrow>
      scrape_yahoo_finance_news env st sy nm =
        (None, st @ [Fetch (yahoo_url env sy), Print (''Yahoo Finance scraping error: '' @ str_exc e)])"
    by (simp add: scrape_yahoo_finance_news_def scrape_yahoo_finance_news_body_def)
  have y2: "http_get env st (yahoo_url env sy) = Inr page
        \<and> (\<forall>h\<in>set (take 3 (find_all_h3 page)). py_strip (h_text h) = []) \<longrightarrow>
      scrape_yahoo_finance_news env st sy nm = (None, st @ [Fetch (yahoo_url env sy)])"
    by (simp add: scrape_yahoo_finance_news_def scrape_yahoo_finance_news_body_def result_of_def
        yahoo_fold_drivers filter_nonempty_Nil)
  have y3: "fst (scrape_yahoo_finance_news_body env st sy nm) = Inl e \<longrightarrow>
      fst (scrape_yahoo_finance_news env st sy nm) = None"
    by (simp add: scrape_yahoo_finance_news_def split: prod.splits)
  have g1: "http_get env st (google_url env nm) = Inl e \<longrightarrow>
      scrape_google_news env st nm cp =
        (None, st @ [Fetch (google_url env nm), Print (''Google News scraping error: '' @ str_exc e)])"
    by (simp add: scrape_google_news_def scrape_google_news_body_def)
  have g2: "http_get env st (google_url env nm) = Inr page
        \<and> (\<forall>a\<in>set (take 3 (find_all_article page)).
              case a of None \<Rightarrow> True | Some t \<Rightarrow> py_strip (a_text t) = []) \<longrightarrow>
      scrape_google_news env st nm cp = (None, st @ [Fetch (google_url env nm)])"
    by (auto simp: scrape_google_news_def scrape_google_news_body_def result_of_def
        google_fold_drivers filter_nonempty_Nil split: option.splits)
  have g3: "fst (scrape_google_news_body env st nm cp) = Inl e \<longrightarrow>
      fst (scrape_google_news env st nm cp) = None"
    by (simp add: scrape_google_news_def split: prod.splits)
  have f0: "str_replace sy ''^'' [] = Inl e \<longrightarrow>
      scrape_finviz_news env st sy nm = (None, st @ [Print (''Finviz scraping error: '' @ str_exc e)])"
    by (simp add: scrape_finviz_news_def scrape_finviz_news_body_def)
  have f1: "str_replace sy ''^'' [] = Inr t \<and> http_get env st (finviz_url t) = Inl e \<longrightarrow>
      scrape_finviz_news env st sy nm =
        (None, st @ [Fetch (finviz_url t), Print (''Finviz scraping error: '' @ str_exc e)])"
    by (simp add: scrape_finviz_news_def scrape_finviz_news_body_def)
  have f2: "str_replace sy ''^'' [] = Inr t \<and> http_get env st (finviz_url t) = Inr page
        \<and> (case find_news_table page of
              None \<Rightarrow> True
            | Some rows \<Rightarrow> \<forall>a\<in>set (take 3 rows).
                             case a of None \<Rightarrow> True | Some l \<Rightarrow> py_strip (a_text l) = []) \<longrightarrow>
      scrape_finviz_news env st sy nm = (None, st @ [Fetch (finviz_url t)])"
    by (auto simp: scrape_finviz_news_def scrape_finviz_news_body_def result_of_def
        finviz_fold_drivers filter_nonempty_Nil split: option.splits)
  have f3: "fst (scrape_finviz_news_body env st sy nm) = Inl e \<longrightarrow>
      fst (scrape_finviz_news env st sy nm) = None"
    by (simp add: scrape_finviz_news_def split: prod.splits)
  show ?thesis
    using y1 y2 y3 g1 g2 g3 f0 f1 f2 f3 by blast
qed


lemma yahoo_url_gspc: "yahoo_url env (PStr ''^GSPC'') = ''https://finance.yahoo.com/quote/^GSPC/news''"
  by (simp add: yahoo_url_def)

lemma google_url_sp500:
  "google_url env (PStr ''S&P 500'') =
     ''https://news.google.com/search?q=S&P+500+stock+market+news&hl=en-US&gl=US&ceid=US:en''"
  by (simp add: google_url_def py_replace.simps)

lemma finviz_url_gspc: "finviz_url (py_replace ''^'' [] ''^GSPC'') = ''https://finviz.com/quote.ashx?t=GSPC''"
  by (simp add: finviz_url_def py_replace.simps)

theorem scrapers_swallow_failures_witness:
  "scrape_yahoo_finance_news offline [] (PStr ''^GSPC'') (PStr ''S&P 500'') =
     (None, [Fetch ''https://finance.yahoo.com/quote/^GSPC/news'',
             Print ''Yahoo Finance scraping error: connection refused''])
   \<and> scrape_google_news blank [] (PStr ''S&P 500'') (PFloat (Finite (5 / 2))) =
     (None, [Fetch ''https://news.google.com/search?q=S&P+500+stock+market+news&hl=en-US&gl=US&ceid=US:en''])
   \<and> scrape_finviz_news blank [] (PStr ''^GSPC'') (PStr ''S&P 500'') =
     (None, [Fetch ''https://finviz.com/quote.ashx?t=GSPC''])
   \<and> scrape_finviz_news blank [] (PInt 7) (PStr ''S&P 500'') =
     (None, [Print (''Finviz scraping error: '' @ quote ''int'' @ '' object has no attribute '' @ quote ''replace'')])"
  using scrapers_swallow_failures [where env = offline and st = "[]" and sy = "PStr ''^GSPC''"
      and nm = "PStr ''S&P 500''" and e = "OtherError ''connection refused''" and cp = PNone
      and page = blank_page and t = "[]"]
    scrapers_swallow_failures [where env = blank and st = "[]" and sy = "PStr ''^GSPC''"
      and nm = "PStr ''S&P 500''" and e = "OtherError ''connection refused''"
      and cp = "PFloat (Finite (5 / 2))" and page = blank_page and t = "py_replace ''^'' [] ''^GSPC''"]
    scrapers_swallow_failures [where env = blank and st = "[]" and sy = "PInt 7"
      and nm = "PStr ''S&P 500''"
      and e = "AttributeError (quote ''int'' @ '' object has no attribute '' @ quote ''replace'')"
      and cp = PNone and page = blank_page and t = "[]"]
  by (simp add: offline_def blank_def blank_page_def yahoo_url_gspc google_url_sp500 finviz_url_gspc
      py_strip_def is_space_def)

section \<open>Analysis aggregator: the generic analysis\<close>

lemma get_free_news_analysis_body_unfold:
  assumes "scrape_yahoo_finance_news env st sy nm = (y, st1)"
      and "scrape_google_news env st1 nm cp = (g, st2)"
      and "scrape_finviz_news env st2 sy nm = (f, st3)"
  shows "get_free_news_analysis_body env st sy nm cp sd ed =
           (aggregate env sy nm cp (extend_with f (extend_with g (extend_with y ([], [])))), st3)"
  using assms by (simp add: get_free_news_analysis_body_def)

lemma aggregate_nothing:
  "aggregate env sy nm cp ([], []) =
     (case fallback env sy nm cp of
        Inl e \<Rightarrow> Inl e
      | Inr fb \<Rightarrow> Inr \<lparr>drivers = fst fb, sources = snd fb, method_tag = ''free_scraping''\<rparr>)"
  by (simp add: aggregate_def fromkeys_Nil)

lemma fallback_float:
  "fallback env (PStr s) nm (PFloat f) =
     Inr ([fstr env nm @ '' '' @ (if float_gt0 f then ''increased'' else ''decreased'') @ '' by ''
             @ fmt_2f (float_abs f) @ ''% during this period.'',
           ''Check financial news sources for detailed analysis of market conditions.'',
           ''Consider broader market trends and sector-specific factors.''],
          [''Yahoo Finance - https://finance.yahoo.com/quote/'' @ s,
           ''Google Finance - https://www.google.com/finance/quote/'' @ py_replace ''^'' [] s @ '':INDEXSP''])"
  by (simp add: fallback_def)

lemma float_of_int_abs:
  "round_to_53 (nat \<bar>n\<bar>) < 2 ^ 1024 \<Longrightarrow>
   float_of_int \<bar>n\<bar> = Inr (Finite (of_nat (round_to_53 (nat \<bar>n\<bar>))))"
proof -
  assume a: "round_to_53 (nat \<bar>n\<bar>) < 2 ^ 1024"
  have z: "n = 0 \<Longrightarrow> round_to_53 (nat \<bar>n\<bar>) = 0"
    by (simp add: round_to_53_def bit_length.simps)
  have "sgn \<bar>n\<bar> * int (round_to_53 (nat \<bar>n\<bar>)) = int (round_to_53 (nat \<bar>n\<bar>))"
    using z by (cases "n = 0") simp_all
  then show ?thesis
    using a by (simp add: float_of_int_def Let_def)
qed

lemma fallback_int:
  "round_to_53 (nat \<bar>n\<bar>) < 2 ^ 1024 \<Longrightarrow>
   fallback env (PStr s) nm (PInt n) =
     Inr ([fstr env nm @ '' '' @ (if 0 < n then ''increased'' else ''decreased'') @ '' by ''
             @ fmt_2f (Finite (of_nat (round_to_53 (nat \<bar>n\<bar>)))) @ ''% during this period.'',
           ''Check financial news sources for detailed analysis of market conditions.'',
           ''Consider broader market trends and sector-specific factors.''],
          [''Yahoo Finance - https://finance.yahoo.com/quote/'' @ s,
           ''Google Finance - https://www.google.com/finance/quote/'' @ py_replace ''^'' [] s @ '':INDEXSP''])"
  by (simp add: fallback_def float_of_int_abs)

lemma fmt_2: "fmt_2f_rat 2 = ''2.00''"
  by code_simp


lemma bit_length_upper: "m < 2 ^ bit_length m"
proof (induction m rule: bit_length.induct)
  case (1 n)
  show ?case
  proof (cases "n = 0")
    case True
    then show ?thesis by (simp add: bit_length.simps)
  next
    case False
    with 1 have "n div 2 < 2 ^ bit_length (n div 2)" by simp
    then have "n < 2 * 2 ^ bit_length (n div 2)" by linarith
    with False show ?thesis by (simp add: bit_length.simps [of n])
  qed
qed

lemma bit_length_lower: "0 < m \<Longrightarrow> 2 ^ (bit_length m - 1) \<le> m"
proof (induction m rule: bit_length.induct)
  case (1 n)
  then have pos: "n \<noteq> 0" by simp
  show ?case
  proof (cases "n div 2 = 0")
    case True
    with pos show ?thesis by (simp add: bit_length.simps [of n] bit_length.simps [of 0])
  next
    case False
    with 1 pos have ih: "2 ^ (bit_length (n div 2) - 1) \<le> n div 2" by simp
    from False have "bit_length (n div 2) = Suc (bit_length (n div 2) - 1)"
      by (simp add: bit_length.simps [of "n div 2"])
    then have "(2::nat) ^ bit_length (n div 2) = 2 * 2 ^ (bit_length (n div 2) - 1)"
      by (metis power_Suc)
    with ih have "2 ^ bit_length (n div 2) \<le> n" by linarith
    with pos show ?thesis by (simp add: bit_length.simps [of n])
  qed
qed

lemma round_to_53_large:
  assumes "2 ^ 1024 \<le> m"
  shows "2 ^ 1024 \<le> round_to_53 m"
proof -
  define b where "b = bit_length m"
  have "(2::nat) ^ 1024 < 2 ^ b"
    using assms bit_length_upper [of m] by (simp add: b_def)
  then have b: "1024 < b"
    by (rule power_less_imp_less_exp [of 2, rotated]) simp
  define sh where "sh = b - 53"
  have split: "b - 1 = 52 + sh" using b by (simp add: sh_def)
  have "0 < m" using assms by (metis gr0I not_less zero_less_numeral zero_less_power not_le)
  then have lo: "2 ^ (b - 1) \<le> m"
    unfolding b_def by (rule bit_length_lower)
  have q: "(2::nat) ^ 52 \<le> m div 2 ^ sh"
  proof -
    have "(2::nat) ^ 52 * 2 ^ sh \<le> m" using lo unfolding split by (simp add: power_add)
    then have "(2::nat) ^ 52 * 2 ^ sh div 2 ^ sh \<le> m div 2 ^ sh" by (rule div_le_mono)
    then show ?thesis by simp
  qed
  define q' where "q' = (if 2 ^ (sh - 1) < m mod 2 ^ sh \<or> (m mod 2 ^ sh = 2 ^ (sh - 1) \<and> odd (m div 2 ^ sh))
                         then m div 2 ^ sh + 1 else m div 2 ^ sh)"
  have "(2::nat) ^ 52 \<le> q'" using q by (simp add: q'_def)
  then have "(2::nat) ^ 52 * 2 ^ sh \<le> q' * 2 ^ sh" by (rule mult_le_mono1)
  moreover have "(2::nat) ^ 1024 \<le> 2 ^ 52 * 2 ^ sh"
  proof -
    have "(2::nat) ^ 1024 \<le> 2 ^ (52 + sh)"
      using b by (intro power_increasing) (simp_all add: sh_def)
    then show ?thesis by (simp add: power_add)
  qed
  moreover have "round_to_53 m = q' * 2 ^ sh"
    using b by (simp add: round_to_53_def Let_def b_def [symmetric] sh_def [symmetric] q'_def)
  ultimately show ?thesis by linarith
qed

lemma big_10_400: "(2::nat) ^ 1024 \<le> 10 ^ 400"
  by simp


lemma fmt_314: "fmt_2f_rat (7070651414971679 / 2251799813685248) = ''3.14''"
  by code_simp

lemma fmt_0: "fmt_2f_rat 0 = ''0.00''"
  by code_simp

lemma round_7: "round_to_53 7 = 7"
  by code_simp

lemma float_of_int_overflow:
  assumes "2 ^ 1024 \<le> nat \<bar>i\<bar>"
  shows "float_of_int \<bar>i\<bar> = Inl (OverflowError ''int too large to convert to float'')"
proof -
  have "2 ^ 1024 \<le> round_to_53 (nat \<bar>i\<bar>)"
    using assms by (rule round_to_53_large)
  then show ?thesis
    by (simp add: float_of_int_def Let_def)
qed

lemma fallback_overflow:
  "2 ^ 1024 \<le> nat \<bar>i\<bar> \<Longrightarrow>
   fallback env sy nm (PInt i) = Inl (OverflowError ''int too large to convert to float'')"
  by (simp add: fallback_def float_of_int_overflow)

lemma offline_yahoo:
  "scrape_yahoo_finance_news offline st sy nm =
     (None, st @ [Fetch (yahoo_url offline sy), Print ''Yahoo Finance scraping error: connection refused''])"
  by (simp add: scrape_yahoo_finance_news_def scrape_yahoo_finance_news_body_def offline_def)

lemma offline_google:
  "scrape_google_news offline st nm cp =
     (None, st @ [Fetch (google_url offline nm), Print ''Google News scraping error: connection refused''])"
  by (simp add: scrape_google_news_def scrape_google_news_body_def offline_def)

lemma offline_finviz:
  "scrape_finviz_news offline st (PStr s) nm =
     (None, st @ [Fetch (finviz_url (py_replace ''^'' [] s)), Print ''Finviz scraping error: connection refused''])"
  by (simp add: scrape_finviz_news_def scrape_finviz_news_body_def offline_def)

text \<open>
  Claim C2, amended. For an instrument whose symbol is a string and whose changePercent
  is a float, or an integer that converts to a float (its nearest float is
  below \<open>2 ^ 1024\<close>): when all three scrapers return no result, the aggregator returns the
  generic analysis. Its first driver is the name, then \<^verbatim>\<open>increased\<close> when changePercent
  is above zero and \<^verbatim>\<open>decreased\<close> otherwise (zero included), then the absolute value
  with two decimals; it has two synthesized sources, and its method is
  \<^verbatim>\<open>free_scraping\<close>.
\<close>

theorem fallback_when_nothing_scraped:
  assumes "scrape_yahoo_finance_news env st (PStr s) nm = (None, st1)"
      and "scrape_google_news env st1 nm cp = (None, st2)"
      and "scrape_finviz_news env st2 (PStr s) nm = (None, st3)"
  shows "(cp = PFloat x \<longrightarrow>
           get_free_news_analysis env st (PStr s) nm cp sd ed =
             (\<lparr>drivers =
                 [fstr env nm @ '' '' @ (if float_gt0 x then ''increased'' else ''decreased'') @ '' by ''
                    @ fmt_2f (float_abs x) @ ''% during this period.'',
                  ''Check financial news sources for detailed analysis of market conditions.'',
                  ''Consider broader market trends and sector-specific factors.''],
               sources =
                 [''Yahoo Finance - https://finance.yahoo.com/quote/'' @ s,
                  ''Google Finance - https://www.google.com/finance/quote/''
                    @ py_replace ''^'' [] s @ '':INDEXSP''],
               method_tag = ''free_scraping''\<rparr>, st3))
       \<and> (cp = PInt i \<and> round_to_53 (nat \<bar>i\<bar>) < 2 ^ 1024 \<longrightarrow>
           get_free_news_analysis env st (PStr s) nm cp sd ed =
             (\<lparr>drivers =
                 [fstr env nm @ '' '' @ (if 0 < i then ''increased'' else ''decreased'') @ '' by ''
                    @ fmt_2f (Finite (of_nat (round_to_53 (nat \<bar>i\<bar>)))) @ ''% during this period.'',
                  ''Check financial news sources for detailed analysis of market conditions.'',
                  ''Consider broader market trends and sector-specific factors.''],
               sources =
                 [''Yahoo Finance - https://finance.yahoo.com/quote/'' @ s,
                  ''Google Finance - https://www.google.com/finance/quote/''
                    @ py_replace ''^'' [] s @ '':INDEXSP''],
               method_tag = ''free_scraping''\<rparr>, st3))"
proof -
  have body: "get_free_news_analysis_body env st (PStr s) nm cp sd ed =
                (aggregate env (PStr s) nm cp ([], []), st3)"
    using get_free_news_analysis_body_unfold [OF assms] by (simp add: extend_with_def)
  show ?thesis
  proof (intro conjI impI)
    assume "cp = PFloat x"
    with body show "get_free_news_analysis env st (PStr s) nm cp sd ed =
             (\<lparr>drivers =
                 [fstr env nm @ '' '' @ (if float_gt0 x then ''increased'' else ''decreased'') @ '' by ''
                    @ fmt_2f (float_abs x) @ ''% during this period.'',
                  ''Check financial news sources for detailed analysis of market conditions.'',
                  ''Consider broader market trends and sector-specific factors.''],
               sources =
                 [''Yahoo Finance - https://finance.yahoo.com/quote/'' @ s,
                  ''Google Finance - https://www.google.com/finance/quote/''
                    @ py_replace ''^'' [] s @ '':INDEXSP''],
               method_tag = ''free_scraping''\<rparr>, st3)"
      by (simp add: get_free_news_analysis_def aggregate_nothing fallback_float)
  next
    assume "cp = PInt i \<and> round_to_53 (nat \<bar>i\<bar>) < 2 ^ 1024"
    then have c: "cp = PInt i" and small: "round_to_53 (nat \<bar>i\<bar>) < 2 ^ 1024"
      by blast+
    from body c fallback_int [OF small, of env s nm]
    show "get_free_news_analysis env st (PStr s) nm cp sd ed =
             (\<lparr>drivers =
                 [fstr env nm @ '' '' @ (if 0 < i then ''increased'' else ''decreased'') @ '' by ''
                    @ fmt_2f (Finite (of_nat (round_to_53 (nat \<bar>i\<bar>)))) @ ''% during this period.'',
                  ''Check financial news sources for detailed analysis of market conditions.'',
                  ''Consider broader market trends and sector-specific factors.''],
               sources =
                 [''Yahoo Finance - https://finance.yahoo.com/quote/'' @ s,
                  ''Google Finance - https://www.google.com/finance/quote/''
                    @ py_replace ''^'' [] s @ '':INDEXSP''],
               method_tag = ''free_scraping''\<rparr>, st3)"
      by (simp add: get_free_news_analysis_def aggregate_nothing)
  qed
qed

theorem fallback_when_nothing_scraped_witness:
  "fst (get_free_news_analysis offline [] (PStr ''^TEST'') (PStr ''Test Index'')
          (PFloat (Finite (7070651414971679 / 2251799813685248))) PNone PNone) =
     \<lparr>drivers = [''Test Index increased by 3.14% during this period.'',
                 ''Check financial news sources for detailed analysis of market conditions.'',
                 ''Consider broader market trends and sector-specific factors.''],
      sources = [''Yahoo Finance - https://finance.yahoo.com/quote/^TEST'',
                 ''Google Finance - https://www.google.com/finance/quote/TEST:INDEXSP''],
      method_tag = ''free_scraping''\<rparr>
   \<and> drivers (fst (get_free_news_analysis offline [] (PStr ''^TEST'') (PStr ''Test Index'')
          (PFloat (Finite (- 2))) PNone PNone)) ! 0 = ''Test Index decreased by 2.00% during this period.''
   \<and> drivers (fst (get_free_news_analysis offline [] (PStr ''^TEST'') (PStr ''Test Index'')
          (PFloat (Finite 0)) PNone PNone)) ! 0 = ''Test Index decreased by 0.00% during this period.''
   \<and> drivers (fst (get_free_news_analysis offline [] (PStr ''^TEST'') (PStr ''Test Index'')
          (PInt (- 7)) PNone PNone)) ! 0 = ''Test Index decreased by 7.00% during this period.''"
proof -
  have r: "py_replace ''^'' [] ''^TEST'' = ''TEST''"
    by (simp add: py_replace.simps)
  have f7: "fmt_2f_rat 7 = ''7.00''"
    by code_simp
  show ?thesis
    using fallback_when_nothing_scraped [where env = offline and st = "[]" and s = "''^TEST''"
            and nm = "PStr ''Test Index''" and sd = PNone and ed = PNone
            and cp = "PFloat (Finite (7070651414971679 / 2251799813685248))"
            and x = "Finite (7070651414971679 / 2251799813685248)" and i = 0,
            OF offline_yahoo offline_google offline_finviz]
          fallback_when_nothing_scraped [where env = offline and st = "[]" and s = "''^TEST''"
            and nm = "PStr ''Test Index''" and sd = PNone and ed = PNone
            and cp = "PFloat (Finite (- 2))" and x = "Finite (- 2)" and i = 0,
            OF offline_yahoo offline_google offline_finviz]
          fallback_when_nothing_scraped [where env = offline and st = "[]" and s = "''^TEST''"
            and nm = "PStr ''Test Index''" and sd = PNone and ed = PNone
            and cp = "PFloat (Finite 0)" and x = "Finite 0" and i = 0,
            OF offline_yahoo offline_google offline_finviz]
          fallback_when_nothing_scraped [where env = offline and st = "[]" and s = "''^TEST''"
            and nm = "PStr ''Test Index''" and sd = PNone and ed = PNone
            and cp = "PInt (- 7)" and x = NaN and i = "- 7",
            OF offline_yahoo offline_google offline_finviz]
    by (simp add: r fmt_314 fmt_2 fmt_0 f7 round_7)
qed


text \<open>
  Claim C2 as stated fails for an integer changePercent too large for a float: with
  \<open>10 ^ 400\<close> and all three scrapers returning no result, formatting raises
  \<^verbatim>\<open>OverflowError\<close> and the aggregator's handler returns the error result.
\<close>

theorem fallback_int_overflow_counterexample:
  "fst (scrape_yahoo_finance_news offline [] (PStr ''^TEST'') (PStr ''Test Index'')) = None
   \<and> fst (scrape_google_news offline
            (snd (scrape_yahoo_finance_news offline [] (PStr ''^TEST'') (PStr ''Test Index'')))
            (PStr ''Test Index'') (PInt (10 ^ 400))) = None
   \<and> fst (scrape_finviz_news offline
            (snd (scrape_google_news offline
                    (snd (scrape_yahoo_finance_news offline [] (PStr ''^TEST'') (PStr ''Test Index'')))
                    (PStr ''Test Index'') (PInt (10 ^ 400))))
            (PStr ''^TEST'') (PStr ''Test Index'')) = None
   \<and> fst (get_free_news_analysis offline [] (PStr ''^TEST'') (PStr ''Test Index'')
            (PInt (10 ^ 400)) PNone PNone) =
       \<lparr>drivers = [''Unable to fetch news: int too large to convert to float''], sources = [],
        method_tag = ''error''\<rparr>"
proof -
  have fb: "fallback offline (PStr ''^TEST'') (PStr ''Test Index'') (PInt (10 ^ 400)) =
              Inl (OverflowError ''int too large to convert to float'')"
    by (rule fallback_overflow) simp
  obtain st3 where
    body: "get_free_news_analysis_body offline [] (PStr ''^TEST'') (PStr ''Test Index'')
                (PInt (10 ^ 400)) PNone PNone =
              (aggregate offline (PStr ''^TEST'') (PStr ''Test Index'') (PInt (10 ^ 400))
                 (extend_with None (extend_with None (extend_with None ([], [])))), st3)"
    using get_free_news_analysis_body_unfold [OF offline_yahoo offline_google offline_finviz]
    by blast
  have res: "fst (get_free_news_analysis offline [] (PStr ''^TEST'') (PStr ''Test Index'')
            (PInt (10 ^ 400)) PNone PNone) =
       \<lparr>drivers = [''Unable to fetch news: int too large to convert to float''], sources = [],
        method_tag = ''error''\<rparr>"
    unfolding get_free_news_analysis_def body extend_with_def option.case aggregate_nothing fb
    by (simp add: error_result_def)
  show ?thesis
    unfolding offline_yahoo offline_google offline_finviz using res by simp
qed

section \<open>Analysis aggregator: what every result holds\<close>

lemma fromkeys_eq_Nil: "(fromkeys xs = []) = (xs = [])"
  by (metis set_fromkeys set_empty)

lemma aggregate_shape:
  assumes "aggregate env sy nm cp (D, S) = Inr r"
  shows "drivers r \<noteq> [] \<and> method_tag r = ''free_scraping''
         \<and> (sources r = [] \<longleftrightarrow> D \<noteq> [] \<and> S = [])"
proof (cases "D = []")
  case True
  with assms obtain fb where fb: "fallback env sy nm cp = Inr fb"
      and r: "r = \<lparr>drivers = fst fb, sources = snd fb, method_tag = ''free_scraping''\<rparr>"
    by (auto simp: aggregate_def fromkeys_Nil split: sum.splits)
  from fallback_lengths [OF fb] have "fst fb \<noteq> []" and "snd fb \<noteq> []"
    by auto
  with r True show ?thesis by simp
next
  case False
  then have "take 3 (fromkeys D) \<noteq> []"
    by (simp add: fromkeys_eq_Nil)
  with assms have "r = \<lparr>drivers = take 3 (fromkeys D), sources = take 5 (fromkeys S),
                          method_tag = ''free_scraping''\<rparr>"
    by (simp add: aggregate_merged)
  with False show ?thesis
    by (simp add: fromkeys_eq_Nil)
qed

text \<open>
  Claim C4, amended. Every result of the aggregator has at least one driver, and its method
  is \<^verbatim>\<open>error\<close> or \<^verbatim>\<open>free_scraping\<close>. An error result has no sources. A
  \<^verbatim>\<open>free_scraping\<close> result has no sources exactly when some driver was scraped and no
  scraped headline carried a link; the generic analysis always has its two sources.
\<close>

theorem drivers_never_empty_sources_sometimes:
  assumes "scrape_yahoo_finance_news env st sy nm = (y, st1)"
      and "scrape_google_news env st1 nm cp = (g, st2)"
      and "scrape_finviz_news env st2 sy nm = (f, st3)"
      and "r = fst (get_free_news_analysis env st sy nm cp sd ed)"
  shows "drivers r \<noteq> []
         \<and> (method_tag r = ''error'' \<or> method_tag r = ''free_scraping'')
         \<and> (method_tag r = ''error'' \<longrightarrow> sources r = [])
         \<and> (method_tag r = ''free_scraping'' \<longrightarrow>
               (sources r = [] \<longleftrightarrow>
                  drivers_of y @ drivers_of g @ drivers_of f \<noteq> []
                  \<and> sources_of y @ sources_of g @ sources_of f = []))"
proof -
  let ?D = "drivers_of y @ drivers_of g @ drivers_of f"
  let ?S = "sources_of y @ sources_of g @ sources_of f"
  have body: "get_free_news_analysis_body env st sy nm cp sd ed = (aggregate env sy nm cp (?D, ?S), st3)"
    using get_free_news_analysis_body_unfold [OF assms(1-3)] by (simp add: extend_with_all)
  show ?thesis
  proof (cases "aggregate env sy nm cp (?D, ?S)")
    case (Inl e)
    with body assms(4) have "r = error_result e"
      by (simp add: get_free_news_analysis_def)
    then show ?thesis by (simp add: error_result_def)
  next
    case (Inr a)
    with body assms(4) have "r = a"
      by (simp add: get_free_news_analysis_def)
    with aggregate_shape [OF Inr] show ?thesis by simp
  qed
qed

theorem drivers_never_empty_sources_sometimes_witness:
  "drivers (fst (get_free_news_analysis offline [] (PStr ''^GSPC'') (PStr ''S&P 500'') PNone PNone PNone)) \<noteq> []
   \<and> method_tag (fst (get_free_news_analysis offline [] (PStr ''^GSPC'') (PStr ''S&P 500'') PNone PNone PNone)) = ''error''
   \<and> sources (fst (get_free_news_analysis offline [] (PStr ''^GSPC'') (PStr ''S&P 500'') PNone PNone PNone)) = []
   \<and> method_tag (fst (get_free_news_analysis offline [] (PStr ''^GSPC'') (PStr ''S&P 500'')
         (PFloat (Finite (5 / 2))) PNone PNone)) = ''free_scraping''
   \<and> sources (fst (get_free_news_analysis offline [] (PStr ''^GSPC'') (PStr ''S&P 500'')
         (PFloat (Finite (5 / 2))) PNone PNone)) \<noteq> []"
proof -
  have e: "method_tag (fst (get_free_news_analysis offline [] (PStr ''^GSPC'') (PStr ''S&P 500'') PNone PNone PNone)) = ''error''"
    by (simp add: get_free_news_analysis_def get_free_news_analysis_body_def offline_yahoo
        offline_google offline_finviz extend_with_def aggregate_nothing fallback_def error_result_def)
  have s: "method_tag (fst (get_free_news_analysis offline [] (PStr ''^GSPC'') (PStr ''S&P 500'')
         (PFloat (Finite (5 / 2))) PNone PNone)) = ''free_scraping''"
    by (simp add: get_free_news_analysis_def get_free_news_analysis_body_def offline_yahoo
        offline_google offline_finviz extend_with_def aggregate_nothing fallback_float)
  show ?thesis
    using drivers_never_empty_sources_sometimes [OF offline_yahoo offline_google offline_finviz refl,
            of "[]" "''^GSPC''" "PStr ''S&P 500''" PNone PNone PNone]
          drivers_never_empty_sources_sometimes [OF offline_yahoo offline_google offline_finviz refl,
            of "[]" "''^GSPC''" "PStr ''S&P 500''" "PFloat (Finite (5 / 2))" PNone PNone]
          e s
    by (simp add: drivers_of_def sources_of_def)
qed

lemma strip_headline: "py_strip '' Fed holds rates steady '' = ''Fed holds rates steady''"
  by (simp add: py_strip_def is_space_def)

lemma headlines_yahoo:
  "scrape_yahoo_finance_news headlines_without_links st sy nm =
     (Some \<lparr>sr_drivers = [''Fed holds rates steady''], sr_sources = []\<rparr>,
      st @ [Fetch (yahoo_url headlines_without_links sy)])"
  by (simp add: scrape_yahoo_finance_news_def scrape_yahoo_finance_news_body_def
      headlines_without_links_def headline_page_def yahoo_step_def result_of_def strip_headline)

lemma headlines_google:
  "scrape_google_news headlines_without_links st nm cp =
     (None, st @ [Fetch (google_url headlines_without_links nm)])"
  by (simp add: scrape_google_news_def scrape_google_news_body_def
      headlines_without_links_def headline_page_def result_of_def)

lemma headlines_finviz:
  "scrape_finviz_news headlines_without_links st (PStr s) nm =
     (None, st @ [Fetch (finviz_url (py_replace ''^'' [] s))])"
  by (simp add: scrape_finviz_news_def scrape_finviz_news_body_def
      headlines_without_links_def headline_page_def result_of_def)

text \<open>
  Claim C4 as stated fails: a headline outside any link gives a driver and no citation, so a
  \<^verbatim>\<open>free_scraping\<close> result can have an empty sources list.
\<close>

theorem free_scraping_without_sources_counterexample:
  "fst (get_free_news_analysis headlines_without_links [] (PStr ''^GSPC'') (PStr ''S&P 500'')
          (PFloat (Finite (5 / 2))) PNone PNone) =
     \<lparr>drivers = [''Fed holds rates steady''], sources = [], method_tag = ''free_scraping''\<rparr>"
  by (simp add: get_free_news_analysis_def get_free_news_analysis_body_def headlines_yahoo
      headlines_google headlines_finviz extend_with_def aggregate_def fromkeys_def)

section \<open>The analyze endpoint\<close>

lemma fields_instrument: "(item_fields x = Inr (s, n, c)) = instrument x s n c"
  by (cases x) (auto simp: item_fields_def instrument_def split: option.splits)

lemma get_free_news_analysis_dates:
  "get_free_news_analysis env st sy nm cp sd ed = get_free_news_analysis env st sy nm cp sd' ed'"
  by (simp add: get_free_news_analysis_def get_free_news_analysis_body_def)

lemma analyze_loop_dates:
  "analyze_loop env st sd ed xs acc = analyze_loop env st sd' ed' xs acc"
proof (induction xs arbitrary: st acc)
  case Nil
  show ?case by simp
next
  case (Cons x xs)
  show ?case
    by (simp add: Cons.IH get_free_news_analysis_dates [of env st _ _ _ sd ed sd' ed']
        split: sum.splits prod.splits)
qed

lemma analyze_loop_append:
  "analyze_loop env st sd ed (xs @ ys) acc =
     (case analyze_loop env st sd ed xs acc of
        (Inl e, st') \<Rightarrow> (Inl e, st')
      | (Inr r, st') \<Rightarrow> analyze_loop env st' sd ed ys r)"
  by (induction xs arbitrary: st acc) (simp_all split: sum.splits prod.splits)

lemma analyze_loop_acc:
  "analyze_loop env st sd ed xs acc =
     (case analyze_loop env st sd ed xs [] of
        (Inl e, st') \<Rightarrow> (Inl e, st')
      | (Inr r, st') \<Rightarrow> (Inr (acc @ r), st'))"
proof (induction xs arbitrary: st acc)
  case Nil
  show ?case by simp
next
  case (Cons x xs)
  show ?case
  proof (cases "item_fields x")
    case (Inl e)
    then show ?thesis by simp
  next
    case (Inr t)
    obtain s n c where t: "t = (s, n, c)" by (cases t) auto
    obtain a st' where g: "get_free_news_analysis env st s n c sd ed = (a, st')"
      by (cases "get_free_news_analysis env st s n c sd ed") auto
    let ?it = "\<lparr>symbol = s, name = n, changePercent = c, analysis = a\<rparr>"
    show ?thesis
      using Cons.IH [of "st' @ [Sleep 1]" "acc @ [?it]"] Cons.IH [of "st' @ [Sleep 1]" "[?it]"]
      by (simp add: Inr t g split: sum.splits prod.splits)
  qed
qed

lemma analyze_loop_ok:
  assumes "\<forall>x\<in>set xs. \<exists>s n c. instrument x s n c"
  shows "\<exists>items st'. analyze_loop env st sd ed xs [] = (Inr items, st')
                      \<and> list_all2 (answers env) xs items"
  using assms
proof (induction xs arbitrary: st)
  case Nil
  show ?case by simp
next
  case (Cons x xs)
  then obtain s n c where i: "instrument x s n c" by auto
  then have f: "item_fields x = Inr (s, n, c)" by (simp add: fields_instrument)
  obtain a st1 where g: "get_free_news_analysis env st s n c sd ed = (a, st1)"
    by (cases "get_free_news_analysis env st s n c sd ed") auto
  let ?it = "\<lparr>symbol = s, name = n, changePercent = c, analysis = a\<rparr>"
  from Cons obtain items st' where
    rest: "analyze_loop env (st1 @ [Sleep 1]) sd ed xs [] = (Inr items, st')"
    and all: "list_all2 (answers env) xs items"
    by fastforce
  have "a = fst (get_free_news_analysis env st s n c PNone PNone)"
    using g get_free_news_analysis_dates [of env st s n c sd ed PNone PNone] by simp
  then have "answers env x ?it"
    using i by (auto simp: answers_def)
  moreover have "analyze_loop env (st1 @ [Sleep 1]) sd ed xs [?it] = (Inr (?it # items), st')"
    by (subst analyze_loop_acc) (simp only: rest, simp)
  then have "analyze_loop env st sd ed (x # xs) [] = (Inr (?it # items), st')"
    by (simp add: f g)
  ultimately show ?case
    using all by auto
qed

lemma analyze_market_symbols_only:
  "analyze_market env st (PDict kv) =
     (let symbols = (case map_of kv ''symbols'' of None \<Rightarrow> PList [] | Some v \<Rightarrow> v)
      in if \<not> truthy symbols then
           (\<lparr>status = 400, body = ErrorBody ''No symbols provided''\<rparr>, st)
         else
           (case py_iter symbols of
              Inl e \<Rightarrow> (\<lparr>status = 500, body = ErrorBody (str_exc e)\<rparr>, st)
            | Inr xs \<Rightarrow>
                (case analyze_loop env st PNone PNone xs [] of
                   (Inl e, st') \<Rightarrow> (\<lparr>status = 500, body = ErrorBody (str_exc e)\<rparr>, st')
                 | (Inr analyses, st') \<Rightarrow> (\<lparr>status = 200, body = AnalysesBody analyses\<rparr>, st'))))"
proof -
  have d: "\<And>xs. analyze_loop env st (case map_of kv ''startDate'' of None \<Rightarrow> PNone | Some v \<Rightarrow> v)
                    (case map_of kv ''endDate'' of None \<Rightarrow> PNone | Some v \<Rightarrow> v) xs []
                 = analyze_loop env st PNone PNone xs []"
    by (rule analyze_loop_dates)
  show ?thesis
    by (simp add: analyze_market_def analyze_market_body_def d Let_def split: sum.splits prod.splits)
qed

lemma analyze_market_list:
  assumes "map_of kv ''symbols'' = Some (PList xs)" and "xs \<noteq> []"
  shows "analyze_market env st (PDict kv) =
           (case analyze_loop env st sd ed xs [] of
              (Inl e, st') \<Rightarrow> (\<lparr>status = 500, body = ErrorBody (str_exc e)\<rparr>, st')
            | (Inr analyses, st') \<Rightarrow> (\<lparr>status = 200, body = AnalysesBody analyses\<rparr>, st'))"
proof -
  have "analyze_loop env st sd ed xs [] = analyze_loop env st PNone PNone xs []"
    by (rule analyze_loop_dates)
  then show ?thesis
    using assms by (simp add: analyze_market_symbols_only)
qed

lemma item_fields_missing:
  assumes "map_of d ''symbol'' = None \<or> map_of d ''name'' = None \<or> map_of d ''changePercent'' = None"
  shows "\<exists>k\<in>{''symbol'', ''name'', ''changePercent''}.
           map_of d k = None \<and> item_fields (PDict d) = Inl (KeyError k)"
  using assms by (auto simp: item_fields_def split: option.splits)

lemma item_fields_cases:
  "(\<exists>e. item_fields x = Inl e) \<or> (\<exists>s n c. instrument x s n c)"
  by (cases "item_fields x") (auto simp: fields_instrument [symmetric])

lemma offline_body:
  "\<exists>st'. get_free_news_analysis_body offline st (PStr s) nm cp sd ed =
           (aggregate offline (PStr s) nm cp ([], []), st')"
  using get_free_news_analysis_body_unfold [OF offline_yahoo offline_google offline_finviz]
  by (simp add: extend_with_def)

lemma offline_method_float:
  "method_tag (fst (get_free_news_analysis offline st (PStr s) nm (PFloat x) sd ed)) = ''free_scraping''"
  using offline_body [of st s nm "PFloat x" sd ed]
  by (auto simp: get_free_news_analysis_def aggregate_nothing fallback_float)

lemma offline_null_raises:
  "\<exists>st'. get_free_news_analysis_body offline st (PStr s) nm PNone sd ed =
           (Inl (TypeError (quote ''>'' @ '' not supported between instances of ''
                   @ quote ''NoneType'' @ '' and '' @ quote ''int'')), st')"
  using offline_body [of st s nm PNone sd ed]
  by (auto simp: aggregate_nothing fallback_def)

lemma analyze_loop_single:
  "instrument x s n c \<Longrightarrow>
   analyze_loop env st sd ed [x] [] =
     (Inr [\<lparr>symbol = s, name = n, changePercent = c,
            analysis = fst (get_free_news_analysis env st s n c sd ed)\<rparr>],
      snd (get_free_news_analysis env st s n c sd ed) @ [Sleep 1])"
proof -
  assume "instrument x s n c"
  then have f: "item_fields x = Inr (s, n, c)"
    by (simp add: fields_instrument)
  show ?thesis
    by (simp add: f split: prod.splits)
qed

lemma sample_instruments:
  "instrument sp500 (PStr ''^GSPC'') (PStr ''S&P 500'') (PFloat (Finite (5 / 2)))"
  "instrument dow_null (PStr ''^DJI'') (PStr ''Dow Jones'') PNone"
  "instrument nasdaq (PStr ''^IXIC'') (PStr ''Nasdaq'') (PFloat (Finite (- 2)))"
  by (simp_all add: instrument_def sp500_def dow_null_def nasdaq_def)

text \<open>
  Claim C1. For a request whose symbols list is not empty and whose elements each carry
  symbol, name and changePercent, the response has status 200 and an analyses array of the
  same length, and item \<open>i\<close> answers input \<open>i\<close>: it repeats the three values of input
  \<open>i\<close> and holds the aggregator's analysis for them.
\<close>

theorem one_analysis_per_instrument:
  assumes "map_of kv ''symbols'' = Some (PList xs)"
      and "xs \<noteq> []"
      and "\<forall>x\<in>set xs. \<exists>s n c. instrument x s n c"
  shows "status (fst (analyze_market env st (PDict kv))) = 200
         \<and> body (fst (analyze_market env st (PDict kv))) =
             AnalysesBody (analyses_of (fst (analyze_market env st (PDict kv))))
         \<and> length (analyses_of (fst (analyze_market env st (PDict kv)))) = length xs
         \<and> (\<forall>i<length xs. answers env (xs ! i) (analyses_of (fst (analyze_market env st (PDict kv))) ! i))"
proof -
  obtain items st' where
    l: "analyze_loop env st PNone PNone xs [] = (Inr items, st')" and
    a: "list_all2 (answers env) xs items"
    using analyze_loop_ok [OF assms(3)] by blast
  have "analyze_market env st (PDict kv) = (\<lparr>status = 200, body = AnalysesBody items\<rparr>, st')"
    using analyze_market_list [OF assms(1,2), of env st PNone PNone] by (simp add: l)
  then show ?thesis
    using a by (simp add: analyses_of_def list_all2_conv_all_nth)
qed

theorem one_analysis_per_instrument_witness:
  "status (fst (analyze_market offline [] (request [sp500, dow_null, nasdaq] ''2024-01-01'' ''2024-01-08''))) = 200
   \<and> length (analyses_of (fst (analyze_market offline []
         (request [sp500, dow_null, nasdaq] ''2024-01-01'' ''2024-01-08'')))) = 3
   \<and> symbol (analyses_of (fst (analyze_market offline []
         (request [sp500, dow_null, nasdaq] ''2024-01-01'' ''2024-01-08''))) ! 2) = PStr ''^IXIC''
   \<and> name (analyses_of (fst (analyze_market offline []
         (request [sp500, dow_null, nasdaq] ''2024-01-01'' ''2024-01-08''))) ! 2) = PStr ''Nasdaq''"
proof -
  have all: "\<forall>x\<in>set [sp500, dow_null, nasdaq]. \<exists>s n c. instrument x s n c"
    using sample_instruments by auto
  note t = one_analysis_per_instrument [where env = offline and st = "[]"
      and xs = "[sp500, dow_null, nasdaq]"
      and kv = "[(''symbols'', PList [sp500, dow_null, nasdaq]), (''startDate'', PStr ''2024-01-01''),
                 (''endDate'', PStr ''2024-01-08'')]", OF _ _ all]
  have q: "\<forall>i<length [sp500, dow_null, nasdaq].
             answers offline ([sp500, dow_null, nasdaq] ! i)
               (analyses_of (fst (analyze_market offline []
                  (request [sp500, dow_null, nasdaq] ''2024-01-01'' ''2024-01-08''))) ! i)"
    using t by (simp add: request_def)
  have "answers offline ([sp500, dow_null, nasdaq] ! 2)
          (analyses_of (fst (analyze_market offline []
             (request [sp500, dow_null, nasdaq] ''2024-01-01'' ''2024-01-08''))) ! 2)"
    using q [rule_format, of 2] by simp
  then have "instrument nasdaq
          (symbol (analyses_of (fst (analyze_market offline []
             (request [sp500, dow_null, nasdaq] ''2024-01-01'' ''2024-01-08''))) ! 2))
          (name (analyses_of (fst (analyze_market offline []
             (request [sp500, dow_null, nasdaq] ''2024-01-01'' ''2024-01-08''))) ! 2))
          (changePercent (analyses_of (fst (analyze_market offline []
             (request [sp500, dow_null, nasdaq] ''2024-01-01'' ''2024-01-08''))) ! 2))"
    by (simp add: answers_def)
  then show ?thesis
    using t by (simp add: request_def instrument_def nasdaq_def)
qed

text \<open>
  Claim C5. When the symbols field of the request object is missing or is an empty array,
  the response is 400 with the error \<^verbatim>\<open>No symbols provided\<close>, whatever the other
  fields hold, and the log of the world is unchanged: nothing was requested, printed or
  slept.
\<close>

theorem no_symbols_is_a_client_error:
  assumes "map_of kv ''symbols'' = None \<or> map_of kv ''symbols'' = Some (PList [])"
  shows "analyze_market env st (PDict kv) =
           (\<lparr>status = 400, body = ErrorBody ''No symbols provided''\<rparr>, st)"
  using assms by (auto simp: analyze_market_def analyze_market_body_def)

theorem no_symbols_is_a_client_error_witness:
  "analyze_market headlines_without_links [] (PDict [(''startDate'', PStr ''2024-01-01'')]) =
     (\<lparr>status = 400, body = ErrorBody ''No symbols provided''\<rparr>, [])
   \<and> analyze_market headlines_without_links [] (request [] ''2024-01-01'' ''yesterday'') =
     (\<lparr>status = 400, body = ErrorBody ''No symbols provided''\<rparr>, [])"
  using no_symbols_is_a_client_error [of "[(''startDate'', PStr ''2024-01-01'')]"
          headlines_without_links "[]"]
        no_symbols_is_a_client_error [of "[(''symbols'', PList []), (''startDate'', PStr ''2024-01-01''),
          (''endDate'', PStr ''yesterday'')]" headlines_without_links "[]"]
  by (simp add: request_def)

text \<open>
  Claim C8, amended. Two requests that differ in startDate and endDate only, answered in
  the same world from the same state, produce the same response and the same log of
  requests, prints and sleeps: the date range has no effect on the response at all, and
  is not echoed back.
\<close>

theorem dates_do_not_matter:
  assumes "\<forall>k. k \<noteq> ''startDate'' \<and> k \<noteq> ''endDate'' \<longrightarrow> map_of kv1 k = map_of kv2 k"
  shows "analyze_market env st (PDict kv1) = analyze_market env st (PDict kv2)"
proof -
  have "map_of kv1 ''symbols'' = map_of kv2 ''symbols''"
    using assms by simp
  then show ?thesis
    by (simp add: analyze_market_symbols_only)
qed

theorem dates_do_not_matter_witness:
  "analyze_market offline [] (request [sp500] ''2024-01-01'' ''2024-01-08'') =
   analyze_market offline [] (request [sp500] ''1999-12-31'' ''2000-01-01'')"
  using dates_do_not_matter [of
          "[(''symbols'', PList [sp500]), (''startDate'', PStr ''2024-01-01''), (''endDate'', PStr ''2024-01-08'')]"
          "[(''symbols'', PList [sp500]), (''startDate'', PStr ''1999-12-31''), (''endDate'', PStr ''2000-01-01'')]"
          offline "[]"]
  by (simp add: request_def)

text \<open>
  Claim C8 as stated says the date range is echoed back. It is not: the response to a
  request with dates is the response to the same request without them.
\<close>

theorem dates_not_echoed_counterexample:
  "fst (analyze_market offline [] (request [sp500] ''2024-01-01'' ''2024-01-08'')) =
   fst (analyze_market offline [] (PDict [(''symbols'', PList [sp500])]))"
  by (simp add: request_def analyze_market_symbols_only)

text \<open>
  Claim C9. When an element of a non-empty symbols list is a dict lacking one of the keys
  symbol, name, changePercent, the response is 500 and its error field is the text of the
  exception raised at the first element that fails (for the dict lacking a key, the
  \<^verbatim>\<open>KeyError\<close> of the first missing key). The instruments before that element were
  analysed, as the log shows, and their analyses are not in the response.
\<close>

theorem missing_key_fails_whole_request:
  assumes "map_of kv ''symbols'' = Some (PList xs)"
      and "PDict d \<in> set xs"
      and "map_of d ''symbol'' = None \<or> map_of d ''name'' = None \<or> map_of d ''changePercent'' = None"
  shows "\<exists>pre bad post e.
           xs = pre @ bad # post \<and> (\<forall>z\<in>set pre. \<exists>s n c. instrument z s n c)
           \<and> item_fields bad = Inl e
           \<and> (bad = PDict d \<longrightarrow>
                 (\<exists>k\<in>{''symbol'', ''name'', ''changePercent''}. map_of d k = None \<and> e = KeyError k))
           \<and> analyze_market env st (PDict kv) =
               (\<lparr>status = 500, body = ErrorBody (str_exc e)\<rparr>,
                snd (analyze_loop env st PNone PNone pre []))"
proof -
  obtain k where k: "k \<in> {''symbol'', ''name'', ''changePercent''}" "map_of d k = None"
      "item_fields (PDict d) = Inl (KeyError k)"
    using item_fields_missing [OF assms(3)] by blast
  then have "\<exists>x\<in>set xs. \<exists>e. item_fields x = Inl e"
    using assms(2) by blast
  then obtain pre bad post where
    xs: "xs = pre @ bad # post" and
    bad: "\<exists>e. item_fields bad = Inl e" and
    pre: "\<forall>z\<in>set pre. \<not> (\<exists>e. item_fields z = Inl e)"
    using split_list_first_prop [of xs "\<lambda>x. \<exists>e. item_fields x = Inl e"] by blast
  from bad obtain e where e: "item_fields bad = Inl e" by blast
  have ok: "\<forall>z\<in>set pre. \<exists>s n c. instrument z s n c"
    using pre item_fields_cases by blast
  obtain items st1 where l: "analyze_loop env st PNone PNone pre [] = (Inr items, st1)"
    using analyze_loop_ok [OF ok] by blast
  have "analyze_loop env st PNone PNone xs [] = (Inl e, st1)"
    by (simp add: xs analyze_loop_append l e)
  moreover have "xs \<noteq> []" using xs by simp
  ultimately have "analyze_market env st (PDict kv) =
      (\<lparr>status = 500, body = ErrorBody (str_exc e)\<rparr>, snd (analyze_loop env st PNone PNone pre []))"
    using analyze_market_list [OF assms(1), of env st PNone PNone] by (simp add: l)
  moreover have "bad = PDict d \<longrightarrow>
      (\<exists>k\<in>{''symbol'', ''name'', ''changePercent''}. map_of d k = None \<and> e = KeyError k)"
    using k e by auto
  ultimately show ?thesis
    using xs ok e by blast
qed

lemma sp500_fields: "item_fields sp500 = Inr (PStr ''^GSPC'', PStr ''S&P 500'', PFloat (Finite (5 / 2)))"
  by (simp add: item_fields_def sp500_def)

theorem missing_key_fails_whole_request_witness:
  "fst (analyze_market offline [] (request [sp500, nameless] ''2024-01-01'' ''2024-01-08'')) =
     \<lparr>status = 500, body = ErrorBody (quote ''name'')\<rparr>
   \<and> snd (analyze_market offline [] (request [sp500, nameless] ''2024-01-01'' ''2024-01-08'')) =
     snd (analyze_loop offline [] PNone PNone [sp500] [])"
proof -
  obtain pre bad post e where
    xs: "[sp500, nameless] = pre @ bad # post" and
    bad: "item_fields bad = Inl e" and
    key: "bad = PDict [(''symbol'', PStr ''^FTSE''), (''changePercent'', PInt 1)] \<longrightarrow>
            (\<exists>k\<in>{''symbol'', ''name'', ''changePercent''}.
               map_of [(''symbol'', PStr ''^FTSE''), (''changePercent'', PInt 1)] k = None \<and> e = KeyError k)" and
    r: "analyze_market offline []
          (PDict [(''symbols'', PList [sp500, nameless]), (''startDate'', PStr ''2024-01-01''),
                  (''endDate'', PStr ''2024-01-08'')]) =
        (\<lparr>status = 500, body = ErrorBody (str_exc e)\<rparr>, snd (analyze_loop offline [] PNone PNone pre []))"
    using missing_key_fails_whole_request [where env = offline and st = "[]"
      and xs = "[sp500, nameless]" and d = "[(''symbol'', PStr ''^FTSE''), (''changePercent'', PInt 1)]"
      and kv = "[(''symbols'', PList [sp500, nameless]), (''startDate'', PStr ''2024-01-01''),
                 (''endDate'', PStr ''2024-01-08'')]"]
    by (auto simp: nameless_def)
  have "bad \<noteq> sp500"
    using bad sp500_fields by auto
  with xs have p: "pre = [sp500]" and b: "bad = nameless"
    by (auto simp: Cons_eq_append_conv)
  from key b have "e = KeyError ''name''"
    by (auto simp: nameless_def)
  with r p show ?thesis
    by (simp add: request_def)
qed

text \<open>
  Claim C6. When the body of the aggregator raises for one instrument of the batch, that
  instrument receives the result with the single driver carrying the exception text, no
  sources and method \<^verbatim>\<open>error\<close>. The loop goes on: the items before are those the loop
  gives for the instruments before, the items after are those the loop gives for the
  instruments after, run from the state the failed analysis left, and the response is
  200 with all of them in order.
\<close>

theorem error_isolation:
  assumes "map_of kv ''symbols'' = Some (PList (pre @ x # post))"
      and "analyze_loop env st sd ed pre [] = (Inr A, st1)"
      and "instrument x s n c"
      and "get_free_news_analysis_body env st1 s n c sd ed = (Inl e, st2)"
      and "analyze_loop env (st2 @ [Sleep 1]) sd ed post [] = (Inr B, st3)"
  shows "get_free_news_analysis env st1 s n c sd ed =
           (\<lparr>drivers = [''Unable to fetch news: '' @ str_exc e], sources = [], method_tag = ''error''\<rparr>,
            st2)
         \<and> analyze_market env st (PDict kv) =
           (\<lparr>status = 200,
             body = AnalysesBody
               (A @ [\<lparr>symbol = s, name = n, changePercent = c,
                       analysis = \<lparr>drivers = [''Unable to fetch news: '' @ str_exc e], sources = [],
                                    method_tag = ''error''\<rparr>\<rparr>] @ B)\<rparr>,
            st3)"
proof -
  let ?err = "\<lparr>drivers = [''Unable to fetch news: '' @ str_exc e], sources = [], method_tag = ''error''\<rparr>"
  let ?it = "\<lparr>symbol = s, name = n, changePercent = c, analysis = ?err\<rparr>"
  have g: "get_free_news_analysis env st1 s n c sd ed = (?err, st2)"
    by (simp add: get_free_news_analysis_def assms(4) error_result_def)
  have f: "item_fields x = Inr (s, n, c)"
    using assms(3) by (simp add: fields_instrument)
  have tail: "analyze_loop env (st2 @ [Sleep 1]) sd ed post (A @ [?it]) = (Inr ((A @ [?it]) @ B), st3)"
    by (subst analyze_loop_acc) (simp only: assms(5), simp)
  have "analyze_loop env st1 sd ed (x # post) A = (Inr ((A @ [?it]) @ B), st3)"
    by (simp only: analyze_loop.simps f g sum.case prod.case tail)
  then have "analyze_loop env st sd ed (pre @ x # post) [] = (Inr (A @ [?it] @ B), st3)"
    by (simp add: analyze_loop_append assms(2))
  then have "analyze_market env st (PDict kv) =
      (\<lparr>status = 200, body = AnalysesBody (A @ [?it] @ B)\<rparr>, st3)"
    using analyze_market_list [OF assms(1), of env st sd ed] by simp
  with g show ?thesis by simp
qed

theorem error_isolation_witness:
  "map (\<lambda>it. (symbol it, method_tag (analysis it)))
     (analyses_of (fst (analyze_market offline [] (request [sp500, dow_null, nasdaq] ''2024-01-01'' ''2024-01-08''))))
   = [(PStr ''^GSPC'', ''free_scraping''), (PStr ''^DJI'', ''error''), (PStr ''^IXIC'', ''free_scraping'')]
   \<and> drivers (analysis (analyses_of (fst (analyze_market offline []
         (request [sp500, dow_null, nasdaq] ''2024-01-01'' ''2024-01-08''))) ! 1)) =
       [''Unable to fetch news: '' @ quote ''>'' @ '' not supported between instances of ''
          @ quote ''NoneType'' @ '' and '' @ quote ''int'']"
proof -
  let ?kv = "[(''symbols'', PList ([sp500] @ dow_null # [nasdaq])), (''startDate'', PStr ''2024-01-01''),
              (''endDate'', PStr ''2024-01-08'')]"
  have kv: "map_of ?kv ''symbols'' = Some (PList ([sp500] @ dow_null # [nasdaq]))"
    by simp
  note l1 = analyze_loop_single [OF sample_instruments(1), of offline "[]" PNone PNone]
  obtain st2 where
    b: "get_free_news_analysis_body offline
          (snd (get_free_news_analysis offline [] (PStr ''^GSPC'') (PStr ''S&P 500'')
                  (PFloat (Finite (5 / 2))) PNone PNone) @ [Sleep 1])
          (PStr ''^DJI'') (PStr ''Dow Jones'') PNone PNone PNone =
        (Inl (TypeError (quote ''>'' @ '' not supported between instances of ''
                @ quote ''NoneType'' @ '' and '' @ quote ''int'')), st2)"
    using offline_null_raises by blast
  note l3 = analyze_loop_single [OF sample_instruments(3), of offline "st2 @ [Sleep 1]" PNone PNone]
  note t = error_isolation [OF kv l1 sample_instruments(2) b l3]
  have "request [sp500, dow_null, nasdaq] ''2024-01-01'' ''2024-01-08'' = PDict ?kv"
    by (simp add: request_def)
  then show ?thesis
    using t by (simp add: analyses_of_def offline_method_float)
qed

section \<open>The health endpoint\<close>

lemma digit_val_digit_char: "d < 10 \<Longrightarrow> digit_val (digit_char d) = Some d"
proof -
  assume "d < 10"
  then have "d = 0 \<or> d = 1 \<or> d = 2 \<or> d = 3 \<or> d = 4 \<or> d = 5 \<or> d = 6 \<or> d = 7 \<or> d = 8 \<or> d = 9"
    by arith
  then show ?thesis
    by (elim disjE) (simp_all add: digit_val_def digit_char_def)
qed

lemma parse_digits_append:
  "parse_digits acc (xs @ ys) =
     (case parse_digits acc xs of None \<Rightarrow> None | Some a \<Rightarrow> parse_digits a ys)"
  by (induction xs arbitrary: acc) (simp_all split: option.splits)

lemma parse_digits_digits: "parse_digits acc (digits n) = Some (acc * 10 ^ length (digits n) + n)"
proof (induction n arbitrary: acc rule: digits.induct)
  case (1 n)
  show ?case
  proof (cases "n < 10")
    case True
    then show ?thesis
      by (simp add: digits.simps [of n] digit_val_digit_char)
  next
    case False
    have m: "n mod 10 < 10" by simp
    have "parse_digits acc (digits n) =
            Some (10 * (acc * 10 ^ length (digits (n div 10)) + n div 10) + n mod 10)"
      using False 1 [OF False, of acc]
      by (simp add: digits.simps [of n] parse_digits_append digit_val_digit_char [OF m])
    moreover have "length (digits n) = Suc (length (digits (n div 10)))"
      using False by (simp add: digits.simps [of n])
    ultimately show ?thesis
      by (simp add: algebra_simps)
  qed
qed

lemma parse_digits_zeros: "parse_digits 0 (replicate k (CHR ''0'')) = Some 0"
  by (induction k) (simp_all add: digit_val_def)

lemma length_digits: "0 < k \<Longrightarrow> n < 10 ^ k \<Longrightarrow> length (digits n) \<le> k"
proof (induction n arbitrary: k rule: digits.induct)
  case (1 n)
  show ?case
  proof (cases "n < 10")
    case True
    with 1(2) show ?thesis by (simp add: digits.simps [of n])
  next
    case False
    obtain j where k: "k = Suc j" using 1(2) by (cases k) auto
    have "0 < j"
    proof (rule ccontr)
      assume "\<not> 0 < j"
      with k 1(3) False show False by simp
    qed
    moreover have "n div 10 < 10 ^ j"
      using 1(3) k by (simp add: less_mult_imp_div_less mult.commute)
    ultimately have "length (digits (n div 10)) \<le> j"
      using 1(1) [OF False] by blast
    with False k show ?thesis by (simp add: digits.simps [of n])
  qed
qed

lemma length_zpad: "0 < k \<Longrightarrow> n < 10 ^ k \<Longrightarrow> length (zpad k n) = k"
  using length_digits [of k n] by (simp add: zpad_def)

lemma parse_nat_zpad: "0 < k \<Longrightarrow> n < 10 ^ k \<Longrightarrow> parse_nat (zpad k n) = Some n"
proof -
  assume k: "0 < k" and n: "n < 10 ^ k"
  have "zpad k n \<noteq> []"
    using length_zpad [OF k n] k by auto
  moreover have "parse_digits 0 (zpad k n) = Some n"
    by (simp add: zpad_def parse_digits_append parse_digits_zeros parse_digits_digits)
  ultimately show ?thesis
    by (simp add: parse_nat_def)
qed

lemma timestamp_shape:
  assumes "length Y = 4" "length M = 2" "length D = 2" "length H = 2" "length Mi = 2" "length S = 2"
    and s: "s = Y @ ''-'' @ M @ ''-'' @ D @ ''T'' @ H @ '':'' @ Mi @ '':'' @ S @ F"
  shows "length s = 19 + length F"
    and "take 4 s = Y" and "take 2 (drop 5 s) = M" and "take 2 (drop 8 s) = D"
    and "take 2 (drop 11 s) = H" and "take 2 (drop 14 s) = Mi" and "take 2 (drop 17 s) = S"
    and "drop 19 s = F"
    and "s ! 4 = CHR ''-''" and "s ! 7 = CHR ''-''" and "s ! 10 = CHR ''T''"
    and "s ! 13 = CHR '':''" and "s ! 16 = CHR '':''"
  using assms by (simp_all add: nth_append)


lemma days_in_month_le: "days_in_month y m \<le> 31"
  by (simp add: days_in_month_def)

lemma parse_isoformat:
  assumes "valid_datetime d"
  shows "parse_iso8601 (isoformat d) = Some d"
proof -
  define Y where "Y = zpad 4 (dt_year d)"
  define M where "M = zpad 2 (dt_month d)"
  define D where "D = zpad 2 (dt_day d)"
  define H where "H = zpad 2 (dt_hour d)"
  define Mi where "Mi = zpad 2 (dt_minute d)"
  define S where "S = zpad 2 (dt_second d)"
  define F where "F = (if dt_microsecond d = 0 then [] else ''.'' @ zpad 6 (dt_microsecond d))"
  define s where "s = isoformat d"
  have day: "dt_day d \<le> 31"
    using assms days_in_month_le [of "dt_year d" "dt_month d"] by (simp add: valid_datetime_def)
  have b: "dt_year d < 10 ^ 4" "dt_month d < 10 ^ 2" "dt_day d < 10 ^ 2" "dt_hour d < 10 ^ 2"
      "dt_minute d < 10 ^ 2" "dt_second d < 10 ^ 2" "dt_microsecond d < 10 ^ 6"
    using assms day by (simp_all add: valid_datetime_def)
  have len: "length Y = 4" "length M = 2" "length D = 2" "length H = 2" "length Mi = 2" "length S = 2"
    unfolding Y_def M_def D_def H_def Mi_def S_def using b by (simp_all add: length_zpad)
  have p: "parse_nat Y = Some (dt_year d)" "parse_nat M = Some (dt_month d)"
      "parse_nat D = Some (dt_day d)" "parse_nat H = Some (dt_hour d)"
      "parse_nat Mi = Some (dt_minute d)" "parse_nat S = Some (dt_second d)"
    unfolding Y_def M_def D_def H_def Mi_def S_def using b by (simp_all add: parse_nat_zpad)
  have s: "s = Y @ ''-'' @ M @ ''-'' @ D @ ''T'' @ H @ '':'' @ Mi @ '':'' @ S @ F"
    by (simp add: s_def isoformat_def Y_def M_def D_def H_def Mi_def S_def F_def)
  note sh = timestamp_shape [OF len s]
  have whole: "\<lparr>dt_year = dt_year d, dt_month = dt_month d, dt_day = dt_day d, dt_hour = dt_hour d,
                 dt_minute = dt_minute d, dt_second = dt_second d,
                 dt_microsecond = dt_microsecond d\<rparr> = d"
    by simp
  have "parse_iso8601 s = Some d"
  proof (cases "dt_microsecond d = 0")
    case True
    then have l: "length s = 19"
      using sh(1) by (simp add: F_def)
    have whole0: "\<lparr>dt_year = dt_year d, dt_month = dt_month d, dt_day = dt_day d, dt_hour = dt_hour d,
                 dt_minute = dt_minute d, dt_second = dt_second d, dt_microsecond = 0\<rparr> = d"
      using True whole by simp
    show ?thesis
      using assms
      by (simp add: parse_iso8601_def l whole0 sh(2-7) sh(9-13) p)
  next
    case False
    then have f: "F = ''.'' @ zpad 6 (dt_microsecond d)"
      by (simp add: F_def)
    have lf: "length F = 7"
      using b(7) by (simp add: f length_zpad)
    have l: "length s = 26"
      using sh(1) lf by simp
    have "s ! 19 = drop 19 s ! 0"
      using l by (simp add: nth_drop)
    then have dot: "s ! 19 = CHR ''.''"
      by (simp add: sh(8) f)
    have "drop 20 s = drop 1 (drop 19 s)"
      by simp
    then have frac: "drop 20 s = zpad 6 (dt_microsecond d)"
      by (simp only: sh(8) f) simp
    have pf: "parse_nat (zpad 6 (dt_microsecond d)) = Some (dt_microsecond d)"
      using b(7) by (simp add: parse_nat_zpad)
    show ?thesis
      using assms
      by (simp add: parse_iso8601_def l dot frac pf whole sh(2-7) sh(9-13) p)
  qed
  then show ?thesis
    by (simp add: s_def)
qed

text \<open>
  Claim C10. The health check takes the clock and nothing else: it makes no request and
  leaves the log of the world as it was. Its response is 200 with status
  \<^verbatim>\<open>healthy\<close>, method \<^verbatim>\<open>free_scraping\<close>, the three source names, and a
  timestamp that the ISO-8601 reader reads back as the very date and time the clock gave.
\<close>

theorem health_check_is_static:
  assumes "valid_datetime now"
  shows "health_check st now =
           (\<lparr>status = 200,
             body = HealthBody \<lparr>health_status = ''healthy'', health_method = ''free_scraping'',
                                health_sources = [''Yahoo Finance'', ''Google News'', ''Finviz''],
                                timestamp = isoformat now\<rparr>\<rparr>,
            st)
         \<and> parse_iso8601 (isoformat now) = Some now"
  using parse_isoformat [OF assms] by (simp add: health_check_def)

lemma isoformat_sample:
  "isoformat \<lparr>dt_year = 2024, dt_month = 2, dt_day = 29, dt_hour = 9, dt_minute = 5,
              dt_second = 7, dt_microsecond = 250000\<rparr> = ''2024-02-29T09:05:07.250000''"
  by (simp add: isoformat_def zpad_def digits.simps digit_char_def)

lemma isoformat_sample_whole_second:
  "isoformat \<lparr>dt_year = 987, dt_month = 12, dt_day = 31, dt_hour = 23, dt_minute = 59,
              dt_second = 59, dt_microsecond = 0\<rparr> = ''0987-12-31T23:59:59''"
  by (simp add: isoformat_def zpad_def digits.simps digit_char_def)

theorem health_check_is_static_witness:
  "parse_iso8601 ''2024-02-29T09:05:07.250000'' =
     Some \<lparr>dt_year = 2024, dt_month = 2, dt_day = 29, dt_hour = 9, dt_minute = 5,
           dt_second = 7, dt_microsecond = 250000\<rparr>
   \<and> parse_iso8601 ''0987-12-31T23:59:59'' =
     Some \<lparr>dt_year = 987, dt_month = 12, dt_day = 31, dt_hour = 23, dt_minute = 59,
           dt_second = 59, dt_microsecond = 0\<rparr>
   \<and> snd (health_check [Fetch ''https://finviz.com/quote.ashx?t=GSPC'']
            \<lparr>dt_year = 2024, dt_month = 2, dt_day = 29, dt_hour = 9, dt_minute = 5,
             dt_second = 7, dt_microsecond = 250000\<rparr>) = [Fetch ''https://finviz.com/quote.ashx?t=GSPC'']"
proof -
  have v1: "valid_datetime \<lparr>dt_year = 2024, dt_month = 2, dt_day = 29, dt_hour = 9, dt_minute = 5,
              dt_second = 7, dt_microsecond = 250000\<rparr>"
    by (simp add: valid_datetime_def days_in_month_def leap_year_def)
  have v2: "valid_datetime \<lparr>dt_year = 987, dt_month = 12, dt_day = 31, dt_hour = 23, dt_minute = 59,
              dt_second = 59, dt_microsecond = 0\<rparr>"
    by (simp add: valid_datetime_def days_in_month_def leap_year_def)
  show ?thesis
    using health_check_is_static [OF v1, of "[Fetch ''https://finviz.com/quote.ashx?t=GSPC'']"]
      health_check_is_static [OF v2, of "[]"]
    by (simp only: isoformat_sample isoformat_sample_whole_second) simp
qed

end
